theory Spec2Isabelle
  imports Main "HOL-Library.Finite_Map" "HOL-Library.AList"
begin

section \<open>Values, exceptions and results\<close>

text \<open>
  The program under study is \<^verbatim>\<open>web-ui/app.py\<close>, a Flask application. Its handlers
  build Python dictionaries, lists, strings and integers; \<open>pyval\<close> is that fragment of
  Python's values. A dictionary is a finite map, so that equality of \<open>pyval\<close> is Python's
  \<^verbatim>\<open>==\<close> on dictionaries (insertion order does not matter). Dictionary keys are strings,
  as in every dictionary the program builds; a float, which the program only passes
  on, is kept as its decimal text. A \<open>string\<close> is a sequence of characters with code
  points below 256.
\<close>

datatype pyval =
    PNone
  | PBool bool
  | PInt int
  | PFloat string
  | PStr string
  | PList "pyval list"
  | PDict "(string, pyval) fmap"

text \<open>
  An exception is its class together with a text. The program reads the text
  (\<^verbatim>\<open>str(e)\<close>) only of the exceptions its \<^verbatim>\<open>except\<close> clauses catch: those of a
  process that cannot be started, of \<^verbatim>\<open>json.loads\<close>, and of a form field missing in
  \<^verbatim>\<open>deploy\<close>; for these the text is the one Python gives. For the others it names
  the cause.
\<close>

datatype exn =
    BadRequestKeyError string
  | ValueError string
  | TypeError string
  | OSError string
  | YAMLError string
  | JSONDecodeError string
  | TimeoutExpired string

fun str_exn :: "exn \<Rightarrow> string" where
  "str_exn (BadRequestKeyError m) = m"
| "str_exn (ValueError m) = m"
| "str_exn (TypeError m) = m"
| "str_exn (OSError m) = m"
| "str_exn (YAMLError m) = m"
| "str_exn (JSONDecodeError m) = m"
| "str_exn (TimeoutExpired m) = m"

text \<open>
  A computation returns a value, raises, or never returns (it waits for a process that
  does not exit).
\<close>

datatype 'a res = Ok 'a | Exc exn | Hang

section \<open>String operations of the Python library\<close>

text \<open>\<^verbatim>\<open>str.isspace\<close> on one character with a code point below 256.\<close>

definition py_isspace :: "char \<Rightarrow> bool" where
  "py_isspace c = (of_char c \<in> {9, 10, 11, 12, 13, 28, 29, 30, 31, 32, 133, 160 :: nat})"

text \<open>\<^verbatim>\<open>s.strip()\<close>: leading and trailing whitespace removed.\<close>

definition py_strip :: "string \<Rightarrow> string" where
  "py_strip s = rev (dropWhile py_isspace (rev (dropWhile py_isspace s)))"

text \<open>
  \<^verbatim>\<open>s.split(sep)\<close> for a separator of one character: the pieces between the
  separators, of which there is always at least one.
\<close>

fun py_split :: "char \<Rightarrow> string \<Rightarrow> string list" where
  "py_split sep [] = [[]]"
| "py_split sep (c # cs) =
     (if c = sep then [] # py_split sep cs
      else (case py_split sep cs of
              [] \<Rightarrow> [[c]]
            | p # ps \<Rightarrow> (c # p) # ps))"

text \<open>\<^verbatim>\<open>sep.join(parts)\<close>.\<close>

fun py_join :: "string \<Rightarrow> string list \<Rightarrow> string" where
  "py_join sep [] = []"
| "py_join sep [p] = p"
| "py_join sep (p # q # ps) = p @ sep @ py_join sep (q # ps)"

text \<open>
  \<^verbatim>\<open>int(s)\<close> for a string: whitespace around the literal is dropped (the separators
  with code points 28 to 31 are not whitespace here), one sign is allowed, and the digits
  may be grouped by single underscores. \<open>max_digits\<close> is the interpreter's limit on the
  number of digits (\<^verbatim>\<open>sys.get_int_max_str_digits()\<close>, where 0 means no limit).
\<close>

definition int_isspace :: "char \<Rightarrow> bool" where
  "int_isspace c = (of_char c \<in> {9, 10, 11, 12, 13, 32, 133, 160 :: nat})"

definition is_digit :: "char \<Rightarrow> bool" where
  "is_digit c = (48 \<le> (of_char c :: nat) \<and> (of_char c :: nat) \<le> 57)"

definition digit_val :: "char \<Rightarrow> int" where
  "digit_val c = int (of_char c) - 48"

fun digits_ok :: "string \<Rightarrow> bool" where
  "digits_ok [] = False"
| "digits_ok [c] = is_digit c"
| "digits_ok (c # d # cs) =
     (if is_digit c then
        (if d = CHR ''_'' then digits_ok cs else digits_ok (d # cs))
      else False)"

definition digits_value :: "string \<Rightarrow> int" where
  "digits_value ds = foldl (\<lambda>acc c. 10 * acc + digit_val c) 0 (filter is_digit ds)"

definition py_int :: "nat \<Rightarrow> string \<Rightarrow> int res" where
  "py_int max_digits s =
     (let t = rev (dropWhile int_isspace (rev (dropWhile int_isspace s)));
          neg = (case t of c # _ \<Rightarrow> c = CHR ''-'' | [] \<Rightarrow> False);
          body = (case t of
                    c # cs \<Rightarrow> if c = CHR ''-'' \<or> c = CHR ''+'' then cs else t
                  | [] \<Rightarrow> t)
      in if \<not> digits_ok body then
           Exc (ValueError ''invalid literal for int() with base 10'')
         else if 0 < max_digits \<and> max_digits < length (filter is_digit body) then
           Exc (ValueError ''Exceeds the limit for integer string conversion'')
         else Ok (if neg then - digits_value body else digits_value body))"

section \<open>The environment of a request\<close>

text \<open>
  \<^verbatim>\<open>subprocess.run(args, capture_output=True, text=True, cwd=...)\<close> is called with a
  list of arguments and neither \<^verbatim>\<open>shell\<close> nor \<^verbatim>\<open>timeout\<close>, which therefore take their
  defaults. An \<open>invocation\<close> records what a call passes: the argument vector, the working
  directory, whether a shell is asked to interpret the command, and the timeout.
\<close>

record invocation =
  args :: "string list"
  cwd :: "string option"
  shell :: bool
  timeout :: "nat option"

text \<open>
  What the started program does is the environment's: it exits after some time with a
  return code and its two captured streams, it cannot be started (or its output cannot be
  decoded), or it never exits.
\<close>

datatype proc =
    Exits nat int string string
  | Fails exn
  | NeverExits

record completed =
  returncode :: int
  stdout :: string
  stderr :: string

text \<open>
  A node of the file system is a directory or a regular file with its content. The table
  of nodes is keyed by absolute paths without \<^verbatim>\<open>.\<close> and \<^verbatim>\<open>..\<close>; the root directory is
  not in the table and always exists. There are no links. The order of the table means
  nothing: the order in which a directory is enumerated is the environment's.
\<close>

datatype node = Dir | File string

text \<open>
  The operations on the file system that change it, as the operating system sees them:
  a directory is made, a file is created or emptied by opening it for writing, text is
  written into an open file, a node is renamed. Each one takes effect at once, so the
  states between two of them are states another request can read.
\<close>

datatype fs_op =
    MkDir string
  | OpenTrunc string
  | WriteAll string string
  | Rename string string

text \<open>
  The environment of one request: what each external program does, the paths which the
  operating system refuses to create or write and to read (permissions, read-only mounts,
  over-long names), the rank by which the file system enumerates the entries of a
  directory (lowest first), the host's name and the clock, the two parsers and the
  serialiser of the libraries \<^verbatim>\<open>json\<close> and \<^verbatim>\<open>yaml\<close>, and the interpreter's limit on
  integer literals.
\<close>

record env =
  runner :: "invocation \<Rightarrow> proc"
  refuses_write :: "string \<Rightarrow> bool"
  refuses_read :: "string \<Rightarrow> bool"
  enum_rank :: "string \<Rightarrow> nat"
  nodename :: string
  now_isoformat :: string
  json_loads :: "string \<Rightarrow> exn + pyval"
  yaml_dump :: "pyval \<Rightarrow> string"
  yaml_safe_load :: "string \<Rightarrow> exn + pyval"
  int_max_str_digits :: nat

text \<open>
  The state a request reads and changes: the file system, the log of the processes
  started so far, the messages flashed to the session, each with its category, and the
  log of the operations that changed the file system, in the order in which they took
  effect. The effects of the started programs on the file system are not part of the
  state: a handler never reads the file system after it has started one.
\<close>

record world =
  nodes :: "(string \<times> node) list"
  calls :: "invocation list"
  flashes :: "(string \<times> string) list"
  syscalls :: "fs_op list"

text \<open>
  What an operation does to the table of nodes, and a handler performing one: the table
  changes and the operation is logged. \<open>states_during\<close> lists the states the file
  system goes through while a sequence of operations takes effect, the first and the
  last included.
\<close>

fun apply_op :: "fs_op \<Rightarrow> (string \<times> node) list \<Rightarrow> (string \<times> node) list" where
  "apply_op (MkDir d) ns = ns @ [(d, Dir)]"
| "apply_op (OpenTrunc t) ns = AList.update t (File []) ns"
| "apply_op (WriteAll t body) ns = AList.update t (File body) ns"
| "apply_op (Rename a b) ns =
     (case map_of ns a of
        Some n \<Rightarrow> AList.update b n (AList.delete a ns)
      | None \<Rightarrow> ns)"

definition perform :: "fs_op \<Rightarrow> world \<Rightarrow> world" where
  "perform op w = w\<lparr>nodes := apply_op op (nodes w), syscalls := syscalls w @ [op]\<rparr>"

fun states_during :: "(string \<times> node) list \<Rightarrow> fs_op list \<Rightarrow> (string \<times> node) list list" where
  "states_during ns [] = [ns]"
| "states_during ns (op # ops) = ns # states_during (apply_op op ns) ops"

type_synonym 'a io = "world \<Rightarrow> 'a res \<times> world"

definition ret :: "'a \<Rightarrow> 'a io" where
  "ret x w = (Ok x, w)"

definition lift :: "'a res \<Rightarrow> 'a io" where
  "lift r w = (r, w)"

definition bind_io :: "'a io \<Rightarrow> ('a \<Rightarrow> 'b io) \<Rightarrow> 'b io" where
  "bind_io m f w =
     (case m w of
        (Ok x, w') \<Rightarrow> f x w'
      | (Exc e, w') \<Rightarrow> (Exc e, w')
      | (Hang, w') \<Rightarrow> (Hang, w'))"

text \<open>\<^verbatim>\<open>try: m except Exception as e: h(e)\<close>.\<close>

definition try_except :: "'a io \<Rightarrow> (exn \<Rightarrow> 'a io) \<Rightarrow> 'a io" where
  "try_except m h w =
     (case m w of
        (Ok x, w') \<Rightarrow> (Ok x, w')
      | (Exc e, w') \<Rightarrow> h e w'
      | (Hang, w') \<Rightarrow> (Hang, w'))"

text \<open>
  \<^verbatim>\<open>subprocess.run\<close>: the call is logged, the program is started and waited for. With
  a timeout, a program still running when it expires is killed and
  \<^verbatim>\<open>TimeoutExpired\<close> is raised; without one the call waits until the program exits.
\<close>

definition subprocess_run :: "env \<Rightarrow> invocation \<Rightarrow> completed io" where
  "subprocess_run e c w =
     (let w' = w\<lparr>calls := calls w @ [c]\<rparr> in
      case runner e c of
        Fails x \<Rightarrow> (Exc x, w')
      | Exits d rc out err \<Rightarrow>
          (case timeout c of
             None \<Rightarrow> (Ok \<lparr>returncode = rc, stdout = out, stderr = err\<rparr>, w')
           | Some t \<Rightarrow>
               if t < d then (Exc (TimeoutExpired ''timed out''), w')
               else (Ok \<lparr>returncode = rc, stdout = out, stderr = err\<rparr>, w'))
      | NeverExits \<Rightarrow>
          (case timeout c of
             None \<Rightarrow> (Hang, w')
           | Some t \<Rightarrow> (Exc (TimeoutExpired ''timed out''), w')))"

text \<open>The call as the program writes it: a list, a working directory, the defaults.\<close>

definition run_list :: "env \<Rightarrow> string list \<Rightarrow> string option \<Rightarrow> completed io" where
  "run_list e argv dir =
     subprocess_run e \<lparr>args = argv, cwd = dir, shell = False, timeout = None\<rparr>"

section \<open>Flask: the form, flashed messages, responses\<close>

text \<open>
  \<^verbatim>\<open>request.form\<close> maps a field to the values submitted for it, in order.
  \<^verbatim>\<open>request.form[k]\<close> is the first of them and raises \<^verbatim>\<open>BadRequestKeyError\<close> when
  there is none; \<^verbatim>\<open>request.form.getlist(k)\<close> is all of them.
\<close>

type_synonym form = "string \<Rightarrow> string list"

definition bad_request_text :: string where
  "bad_request_text =
     ''400 Bad Request: The browser (or proxy) sent a request that this server could not understand.''"

definition form_item :: "form \<Rightarrow> string \<Rightarrow> string res" where
  "form_item f k =
     (case f k of
        [] \<Rightarrow> Exc (BadRequestKeyError bad_request_text)
      | v # _ \<Rightarrow> Ok v)"

definition getlist :: "form \<Rightarrow> string \<Rightarrow> string list" where
  "getlist f k = f k"

datatype http_method = GET | POST

record request =
  request_method :: http_method
  form :: form

text \<open>\<^verbatim>\<open>flash(message, category)\<close>; the category defaults to \<^verbatim>\<open>message\<close>.\<close>

definition flash :: "string \<Rightarrow> string \<Rightarrow> unit io" where
  "flash msg category w = (Ok (), w\<lparr>flashes := flashes w @ [(category, msg)]\<rparr>)"

text \<open>
  A response renders a template with its named arguments, redirects to the URL of an
  endpoint, or is a JSON document.
\<close>

datatype response =
    Render string "(string \<times> pyval) list"
  | Redirect string
  | Jsonify pyval

section \<open>Configuration\<close>

definition CONFIG_DIR :: string where
  "CONFIG_DIR = ''/opt/brewnix/config/sites''"

definition REPO_DIR :: string where
  "REPO_DIR = ''/opt/brewnix''"

section \<open>Bootstrap media and deployment\<close>

text \<open>The argument vector \<^verbatim>\<open>create_usb\<close> passes to \<^verbatim>\<open>subprocess.run\<close>.\<close>

definition create_usb_args :: "string \<Rightarrow> string \<Rightarrow> string list" where
  "create_usb_args site_name usb_device =
     [''/opt/brewnix/vendor/proxmox-nas/bootstrap/create-nas-usb.sh'',
      ''--site-config'', ''/opt/brewnix/config/sites/'' @ site_name @ ''.yml'',
      ''--usb-device'', usb_device]"

text \<open>
  \<^verbatim>\<open>create_usb\<close>: the two form fields are read before the \<^verbatim>\<open>try\<close>, so a missing one
  ends the request; the process runs inside it.
\<close>

definition create_usb :: "env \<Rightarrow> request \<Rightarrow> response io" where
  "create_usb e req =
     bind_io (lift (form_item (form req) ''site_name'')) (\<lambda>site_name.
     bind_io (lift (form_item (form req) ''usb_device'')) (\<lambda>usb_device.
     bind_io
       (try_except
          (bind_io (run_list e (create_usb_args site_name usb_device) (Some ''/opt/brewnix''))
             (\<lambda>result.
                if returncode result = 0 then
                  flash ''USB bootstrap drive created successfully!'' ''message''
                else
                  flash (''Error creating USB drive: '' @ stderr result) ''error''))
          (\<lambda>x. flash (''Error: '' @ str_exn x) ''error''))
       (\<lambda>_. ret (Redirect ''sites''))))"

text \<open>The argument vector \<^verbatim>\<open>deploy\<close> passes to \<^verbatim>\<open>subprocess.run\<close>.\<close>

definition deploy_args :: "string \<Rightarrow> string list" where
  "deploy_args site_name =
     [''ansible-playbook'',
      ''/opt/brewnix/vendor/proxmox-nas/ansible/site.yml'',
      ''-e'', ''site_config_file=/opt/brewnix/config/sites/'' @ site_name @ ''.yml'']"

text \<open>
  \<^verbatim>\<open>deploy\<close>: the form field is read while the argument list is built, inside the
  \<^verbatim>\<open>try\<close>. Nothing is read from the file system.
\<close>

definition deploy :: "env \<Rightarrow> request \<Rightarrow> response io" where
  "deploy e req =
     bind_io
       (try_except
          (bind_io (lift (form_item (form req) ''site_name'')) (\<lambda>site_name.
           bind_io (run_list e (deploy_args site_name) (Some ''/opt/brewnix''))
             (\<lambda>result.
                if returncode result = 0 then
                  flash ''Deployment completed successfully!'' ''message''
                else
                  flash (''Deployment failed: '' @ stderr result) ''error'')))
          (\<lambda>x. flash (''Error: '' @ str_exn x) ''error''))
       (\<lambda>_. ret (Redirect ''dashboard''))"

section \<open>Status\<close>

definition error_dict :: "exn \<Rightarrow> pyval" where
  "error_dict x = PDict (fmap_of_list [(''error'', PStr (str_exn x))])"

text \<open>\<^verbatim>\<open>json.loads(text)\<close>, which raises where the parser reports an error.\<close>

definition loads :: "env \<Rightarrow> string \<Rightarrow> pyval io" where
  "loads e body = lift (case json_loads e body of Inl x \<Rightarrow> Exc x | Inr v \<Rightarrow> Ok v)"

text \<open>
  \<^verbatim>\<open>get_system_info\<close>: three processes in sequence inside one \<^verbatim>\<open>try\<close>. The output of
  \<^verbatim>\<open>zpool\<close> is parsed only when it returned 0; the return codes of \<^verbatim>\<open>df\<close> and
  \<^verbatim>\<open>free\<close> are not looked at.
\<close>

definition get_system_info :: "env \<Rightarrow> pyval io" where
  "get_system_info e =
     try_except
       (bind_io (run_list e [''zpool'', ''status'', ''-j''] None) (\<lambda>zfs_result.
        bind_io (if returncode zfs_result = 0 then loads e (stdout zfs_result)
                 else ret (PDict fmempty)) (\<lambda>zfs_status.
        bind_io (run_list e [''df'', ''-h'', ''/''] None) (\<lambda>df_result.
        bind_io (run_list e [''free'', ''-h''] None) (\<lambda>mem_result.
        ret (PDict (fmap_of_list
          [(''hostname'', PStr (nodename e)),
           (''zfs_pools'', zfs_status),
           (''disk_usage'', PStr (py_strip (stdout df_result))),
           (''memory'', PStr (py_strip (stdout mem_result))),
           (''timestamp'', PStr (now_isoformat e))])))))))
       (\<lambda>x. ret (error_dict x))"

text \<open>The five calls of the status functions, as \<^verbatim>\<open>subprocess.run\<close> receives them.\<close>

definition zpool_call :: invocation where
  "zpool_call = \<lparr>args = [''zpool'', ''status'', ''-j''], cwd = None, shell = False, timeout = None\<rparr>"

definition df_call :: invocation where
  "df_call = \<lparr>args = [''df'', ''-h'', ''/''], cwd = None, shell = False, timeout = None\<rparr>"

definition free_call :: invocation where
  "free_call = \<lparr>args = [''free'', ''-h''], cwd = None, shell = False, timeout = None\<rparr>"

definition git_status_call :: invocation where
  "git_status_call =
     \<lparr>args = [''git'', ''status'', ''--porcelain''], cwd = Some REPO_DIR, shell = False, timeout = None\<rparr>"

definition git_log_call :: invocation where
  "git_log_call =
     \<lparr>args = [''git'', ''log'', ''--oneline'', ''-5''], cwd = Some REPO_DIR, shell = False, timeout = None\<rparr>"

definition vm_entry :: "string \<Rightarrow> string \<Rightarrow> int \<Rightarrow> pyval" where
  "vm_entry name status vmid =
     PDict (fmap_of_list [(''name'', PStr name), (''status'', PStr status), (''vmid'', PInt vmid)])"

text \<open>\<^verbatim>\<open>get_proxmox_status\<close>: a literal, returned from inside a \<^verbatim>\<open>try\<close>.\<close>

definition get_proxmox_status :: "pyval io" where
  "get_proxmox_status =
     try_except
       (ret (PDict (fmap_of_list
          [(''vms'', PList [vm_entry ''truenas'' ''running'' 100,
                            vm_entry ''nextcloud'' ''running'' 101]),
           (''containers'', PList [vm_entry ''monitoring'' ''running'' 200])])))
       (\<lambda>x. ret (error_dict x))"

text \<open>
  \<^verbatim>\<open>get_git_status\<close>: two processes in the repository's directory inside one
  \<^verbatim>\<open>try\<close>; the log is split into lines unless it is empty.
\<close>

definition get_git_status :: "env \<Rightarrow> pyval io" where
  "get_git_status e =
     try_except
       (bind_io (run_list e [''git'', ''status'', ''--porcelain''] (Some REPO_DIR)) (\<lambda>status_result.
        bind_io (run_list e [''git'', ''log'', ''--oneline'', ''-5''] (Some REPO_DIR)) (\<lambda>log_result.
        let git_status = py_strip (stdout status_result);
            recent_commits = py_strip (stdout log_result)
        in ret (PDict (fmap_of_list
             [(''status'', PStr git_status),
              (''recent_commits'',
                 PList (if recent_commits \<noteq> [] then map PStr (py_split CHR 0x0A recent_commits)
                        else []))])))))
       (\<lambda>x. ret (error_dict x))"

definition dashboard :: "env \<Rightarrow> response io" where
  "dashboard e =
     try_except
       (bind_io (get_system_info e) (\<lambda>system_info.
        bind_io get_proxmox_status (\<lambda>vm_status.
        bind_io (get_git_status e) (\<lambda>git_status.
        ret (Render ''dashboard.html''
               [(''system_info'', system_info),
                (''vm_status'', vm_status),
                (''git_status'', git_status)])))))
       (\<lambda>x. ret (Render ''error.html'' [(''error'', PStr (str_exn x))]))"

definition api_status :: "env \<Rightarrow> response io" where
  "api_status e = bind_io (get_system_info e) (\<lambda>v. ret (Jsonify v))"

definition api_vms :: "response io" where
  "api_vms = bind_io get_proxmox_status (\<lambda>v. ret (Jsonify v))"

section \<open>The store of site configurations\<close>

text \<open>
  \<^verbatim>\<open>CONFIG_DIR / name\<close> of \<^verbatim>\<open>pathlib\<close>: the name is cut at its slashes, empty
  pieces and \<^verbatim>\<open>.\<close> are dropped (\<^verbatim>\<open>..\<close> is kept), and a name that starts with a slash
  replaces the directory altogether; exactly two leading slashes are kept as they are.
\<close>

definition path_parts :: "string \<Rightarrow> string list" where
  "path_parts p = filter (\<lambda>c. c \<noteq> [] \<and> c \<noteq> ''.'') (py_split CHR ''/'' p)"

definition path_root :: "string \<Rightarrow> string" where
  "path_root p =
     (if take 2 p = ''//'' \<and> take 3 p \<noteq> ''///'' then ''//''
      else if take 1 p = ''/'' then ''/''
      else [])"

definition joinpath :: "string \<Rightarrow> string \<Rightarrow> string" where
  "joinpath base name =
     (if path_root name = [] then py_join ''/'' (base # path_parts name)
      else path_root name @ py_join ''/'' (path_parts name))"

text \<open>
  How the operating system resolves a path, from the root: every component but the last
  must be a directory, and \<^verbatim>\<open>..\<close> steps to the parent. The result is the key of the
  node the path names (the root is the empty key), whether or not that node exists.
\<close>

definition parent_dir :: "string \<Rightarrow> string" where
  "parent_dir p = rev (drop 1 (dropWhile (\<lambda>c. c \<noteq> CHR ''/'') (rev p)))"

fun walk :: "(string \<times> node) list \<Rightarrow> string \<Rightarrow> string list \<Rightarrow> exn + string" where
  "walk ns cur [] = Inr cur"
| "walk ns cur (c # cs) =
     (if c = ''..'' then walk ns (parent_dir cur) cs
      else if cs = [] then Inr (cur @ ''/'' @ c)
      else (case map_of ns (cur @ ''/'' @ c) of
              Some Dir \<Rightarrow> walk ns (cur @ ''/'' @ c) cs
            | Some (File _) \<Rightarrow> Inl (OSError ''NotADirectoryError'')
            | None \<Rightarrow> Inl (OSError ''FileNotFoundError'')))"

definition resolve :: "(string \<times> node) list \<Rightarrow> string \<Rightarrow> exn + string" where
  "resolve ns p = walk ns [] (path_parts p)"

text \<open>
  \<^verbatim>\<open>CONFIG_DIR.mkdir(parents=True, exist_ok=True)\<close>: the directories on the way that
  are missing are created, outermost first; a regular file on the way is an error.
\<close>

fun ancestors_from :: "string \<Rightarrow> string list \<Rightarrow> string list" where
  "ancestors_from cur [] = []"
| "ancestors_from cur (c # cs) = (cur @ ''/'' @ c) # ancestors_from (cur @ ''/'' @ c) cs"

fun mkdir_chain :: "env \<Rightarrow> string list \<Rightarrow> unit io" where
  "mkdir_chain e [] w = (Ok (), w)"
| "mkdir_chain e (d # ds) w =
     (case map_of (nodes w) d of
        Some Dir \<Rightarrow> mkdir_chain e ds w
      | Some (File _) \<Rightarrow>
          (Exc (OSError (if ds = [] then ''FileExistsError'' else ''NotADirectoryError'')), w)
      | None \<Rightarrow>
          if refuses_write e d then (Exc (OSError ''PermissionError''), w)
          else mkdir_chain e ds (perform (MkDir d) w))"

definition mkdir_parents :: "env \<Rightarrow> string \<Rightarrow> unit io" where
  "mkdir_parents e p = mkdir_chain e (ancestors_from [] (path_parts p))"

text \<open>
  \<^verbatim>\<open>open(path, 'w')\<close>: the file the path names is created, or emptied when it exists,
  at once and under its own name. The result is the key of the open file.
\<close>

definition open_w :: "env \<Rightarrow> string \<Rightarrow> string io" where
  "open_w e p w =
     (if CHR 0x00 \<in> set p then (Exc (ValueError ''embedded null byte''), w)
      else case resolve (nodes w) p of
        Inl x \<Rightarrow> (Exc x, w)
      | Inr t \<Rightarrow>
          if t = [] \<or> map_of (nodes w) t = Some Dir then (Exc (OSError ''IsADirectoryError''), w)
          else if refuses_write e t then (Exc (OSError ''PermissionError''), w)
          else (Ok t, perform (OpenTrunc t) w))"

text \<open>What is written to the open file, once the serialiser has produced it.\<close>

definition write_file :: "string \<Rightarrow> string \<Rightarrow> unit io" where
  "write_file t body w = (Ok (), perform (WriteAll t body) w)"

definition site_config :: "string \<Rightarrow> int \<Rightarrow> string \<Rightarrow> string list \<Rightarrow> string list \<Rightarrow> string
    \<Rightarrow> string \<Rightarrow> string \<Rightarrow> pyval" where
  "site_config site_name vlan_id ip_range system_disks data_disks raid_level api_host api_user =
     PDict (fmap_of_list
       [(''site_name'', PStr site_name),
        (''network'', PDict (fmap_of_list
           [(''vlan_id'', PInt vlan_id), (''ip_range'', PStr ip_range)])),
        (''storage'', PDict (fmap_of_list
           [(''system_disks'', PList (map PStr system_disks)),
            (''data_disks'', PList (map PStr data_disks)),
            (''raid_level'', PStr raid_level)])),
        (''proxmox'', PDict (fmap_of_list
           [(''api_host'', PStr api_host), (''api_user'', PStr api_user)]))])"

text \<open>
  \<^verbatim>\<open>new_site\<close>: on POST the dictionary is built from the form, field by field in the
  order of the source, then the directory is made, the file opened for writing and the
  dictionary dumped into it.
\<close>

definition new_site :: "env \<Rightarrow> request \<Rightarrow> response io" where
  "new_site e req =
     (if request_method req = POST then
        bind_io (lift (form_item (form req) ''site_name'')) (\<lambda>site_name.
        bind_io (lift (form_item (form req) ''vlan_id'')) (\<lambda>vlan_text.
        bind_io (lift (py_int (int_max_str_digits e) vlan_text)) (\<lambda>vlan_id.
        bind_io (lift (form_item (form req) ''ip_range'')) (\<lambda>ip_range.
        bind_io (lift (form_item (form req) ''raid_level'')) (\<lambda>raid_level.
        bind_io (lift (form_item (form req) ''api_host'')) (\<lambda>api_host.
        bind_io (lift (form_item (form req) ''api_user'')) (\<lambda>api_user.
        bind_io (mkdir_parents e CONFIG_DIR) (\<lambda>_.
        bind_io (open_w e (joinpath CONFIG_DIR (site_name @ ''.yml''))) (\<lambda>f.
        bind_io (write_file f (yaml_dump e
                   (site_config site_name vlan_id ip_range
                      (getlist (form req) ''system_disks'') (getlist (form req) ''data_disks'')
                      raid_level api_host api_user))) (\<lambda>_.
        bind_io (flash ''Site configuration created successfully!'' ''message'') (\<lambda>_.
        ret (Redirect ''sites''))))))))))))
      else ret (Render ''site_form.html'' []))"

text \<open>
  \<^verbatim>\<open>CONFIG_DIR.glob('*.yml')\<close>: the entries of the directory itself whose names end in
  \<^verbatim>\<open>.yml\<close>, in the order in which the file system enumerates them, which is by their
  rank in the environment; nothing when the path is not a directory.
\<close>

definition entry_name :: "string \<Rightarrow> string option" where
  "entry_name p =
     (if take (length CONFIG_DIR + 1) p = CONFIG_DIR @ ''/''
         \<and> CHR ''/'' \<notin> set (drop (length CONFIG_DIR + 1) p)
      then Some (drop (length CONFIG_DIR + 1) p) else None)"

definition is_yml :: "string \<Rightarrow> bool" where
  "is_yml name = (4 \<le> length name \<and> drop (length name - 4) name = ''.yml'')"

definition yml_entry :: "string \<Rightarrow> bool" where
  "yml_entry p = (case entry_name p of Some name \<Rightarrow> is_yml name | None \<Rightarrow> False)"

definition glob_yml :: "env \<Rightarrow> (string \<times> node) list \<Rightarrow> (string \<times> node) list" where
  "glob_yml e ns =
     (if map_of ns CONFIG_DIR = Some Dir
      then sort_key (\<lambda>(p, n). enum_rank e p) (filter (\<lambda>(p, n). yml_entry p) ns)
      else [])"

text \<open>\<^verbatim>\<open>config[key] = value\<close>, which only a dictionary supports.\<close>

fun setitem :: "pyval \<Rightarrow> string \<Rightarrow> pyval \<Rightarrow> pyval res" where
  "setitem (PDict d) k v = Ok (PDict (fmupd k v d))"
| "setitem _ k v = Exc (TypeError ''object does not support item assignment'')"

text \<open>
  Reading a record back: \<^verbatim>\<open>with open(config_file, 'r') as f: config = yaml.safe_load(f)\<close>.
\<close>

definition load_file :: "env \<Rightarrow> string \<times> node \<Rightarrow> pyval res" where
  "load_file e pn =
     (case snd pn of
        Dir \<Rightarrow> Exc (OSError ''IsADirectoryError'')
      | File body \<Rightarrow>
          if refuses_read e (fst pn) then Exc (OSError ''PermissionError'')
          else (case yaml_safe_load e body of
                  Inl x \<Rightarrow> Exc x
                | Inr v \<Rightarrow> Ok v))"

text \<open>
  The loop of \<^verbatim>\<open>sites\<close>: each file is read back, given its file name and appended.
  Nothing catches an exception, so the first one ends the loop and the request.
\<close>

fun load_each :: "env \<Rightarrow> (string \<times> node) list \<Rightarrow> pyval list res" where
  "load_each e [] = Ok []"
| "load_each e ((p, n) # rest) =
     (case load_file e (p, n) of
        Ok v \<Rightarrow>
          (case setitem v ''filename'' (PStr (drop (length CONFIG_DIR + 1) p)) of
             Ok config \<Rightarrow>
               (case load_each e rest of
                  Ok cs \<Rightarrow> Ok (config # cs)
                | Exc x \<Rightarrow> Exc x
                | Hang \<Rightarrow> Hang)
           | Exc x \<Rightarrow> Exc x
           | Hang \<Rightarrow> Hang)
      | Exc x \<Rightarrow> Exc x
      | Hang \<Rightarrow> Hang)"

definition sites :: "env \<Rightarrow> response io" where
  "sites e w =
     (case (if map_of (nodes w) CONFIG_DIR \<noteq> None then load_each e (glob_yml e (nodes w))
            else Ok []) of
        Ok cs \<Rightarrow> (Ok (Render ''sites.html'' [(''sites'', PList cs)]), w)
      | Exc x \<Rightarrow> (Exc x, w)
      | Hang \<Rightarrow> (Hang, w))"

text \<open>
  A stored entry is well formed when it is a regular file that can be read and that
  parses to a dictionary; \<open>listed\<close> is the dictionary the listing shows for it, with
  the file's name added.
\<close>

definition dict_of :: "pyval \<Rightarrow> (string, pyval) fmap" where
  "dict_of v = (case v of PDict d \<Rightarrow> d | _ \<Rightarrow> fmempty)"

definition well_formed :: "env \<Rightarrow> string \<times> node \<Rightarrow> bool" where
  "well_formed e pn =
     (case snd pn of
        Dir \<Rightarrow> False
      | File body \<Rightarrow>
          \<not> refuses_read e (fst pn)
          \<and> (case yaml_safe_load e body of Inr (PDict d) \<Rightarrow> True | _ \<Rightarrow> False))"

definition listed :: "env \<Rightarrow> string \<times> node \<Rightarrow> pyval" where
  "listed e pn =
     (case snd pn of
        Dir \<Rightarrow> PNone
      | File body \<Rightarrow>
          (case yaml_safe_load e body of
             Inr (PDict d) \<Rightarrow>
               PDict (fmupd ''filename'' (PStr (drop (length CONFIG_DIR + 1) (fst pn))) d)
           | _ \<Rightarrow> PNone))"

section \<open>Example environments and requests\<close>

text \<open>
  A site record as the form of \<^verbatim>\<open>site_form.html\<close> submits it, and what
  \<^verbatim>\<open>yaml.dump(..., default_flow_style=False)\<close> writes for it: keys in alphabetical
  order, nested mappings indented by two blanks, list items under their key.
\<close>

definition lab_form :: "string \<Rightarrow> string \<Rightarrow> form" where
  "lab_form site_name vlan_id = (\<lambda>k.
     if k = ''site_name'' then [site_name]
     else if k = ''vlan_id'' then [vlan_id]
     else if k = ''ip_range'' then [''10.0.50.0/24'']
     else if k = ''system_disks'' then [''/dev/sda'']
     else if k = ''data_disks'' then [''/dev/sdb'']
     else if k = ''raid_level'' then [''raidz1'']
     else if k = ''api_host'' then [''pve.lab'']
     else if k = ''api_user'' then [''root'']
     else [])"

definition lab_config :: "string \<Rightarrow> int \<Rightarrow> pyval" where
  "lab_config site_name vlan_id =
     site_config site_name vlan_id ''10.0.50.0/24'' [''/dev/sda''] [''/dev/sdb'']
       ''raidz1'' ''pve.lab'' ''root''"

definition lab_yaml :: "string \<Rightarrow> string \<Rightarrow> string" where
  "lab_yaml site_name vlan_id =
     ''network:\<newline>  ip_range: 10.0.50.0/24\<newline>  vlan_id: '' @ vlan_id @
     ''\<newline>proxmox:\<newline>  api_host: pve.lab\<newline>  api_user: root\<newline>site_name: '' @ site_name @
     ''\<newline>storage:\<newline>  data_disks:\<newline>  - /dev/sdb\<newline>  raid_level: raidz1\<newline>  system_disks:\<newline>  - /dev/sda\<newline>''"

text \<open>
  The serialiser and the parser of \<^verbatim>\<open>yaml\<close> on the texts of the examples: the record of
  site \<^verbatim>\<open>lab1\<close> with VLAN 50, the record with an empty name and VLAN -1 (the empty
  string is written as two quotes), the empty document, which is \<^verbatim>\<open>None\<close>, and an
  unclosed brace, which is an error. The serialiser tells the two records apart by
  their site names; for the parser any other text stands for a malformed one.
\<close>

definition stub_yaml_dump :: "pyval \<Rightarrow> string" where
  "stub_yaml_dump v =
     (if fmlookup (dict_of v) ''site_name'' = Some (PStr ''lab1'')
      then lab_yaml ''lab1'' ''50''
      else lab_yaml [CHR 0x27, CHR 0x27] ''-1'')"

definition stub_yaml_safe_load :: "string \<Rightarrow> exn + pyval" where
  "stub_yaml_safe_load body =
     (if body = lab_yaml ''lab1'' ''50'' then Inr (lab_config ''lab1'' 50)
      else if body = lab_yaml [CHR 0x27, CHR 0x27] ''-1'' then Inr (lab_config [] (- 1))
      else if body = [] then Inr PNone
      else Inl (YAMLError ''while parsing a flow node''))"

text \<open>
  The parser of \<^verbatim>\<open>json\<close> on the texts of the examples: an empty object, and anything
  else standing for a text that is not JSON.
\<close>

definition stub_json_loads :: "string \<Rightarrow> exn + pyval" where
  "stub_json_loads body =
     (if body = ''{}'' then Inr (PDict fmempty)
      else Inl (JSONDecodeError ''Expecting value: line 1 column 1 (char 0)''))"

text \<open>
  The environment of the examples: nothing is refused, a directory is enumerated by the
  lengths of the paths of its entries, shortest first, and the integer limit is the
  interpreter's default.
\<close>

definition stub_env :: "(invocation \<Rightarrow> proc) \<Rightarrow> env" where
  "stub_env r =
     \<lparr>runner = r,
      refuses_write = (\<lambda>_. False),
      refuses_read = (\<lambda>_. False),
      enum_rank = length,
      nodename = ''nas1'',
      now_isoformat = ''2024-05-01T12:00:00'',
      json_loads = stub_json_loads,
      yaml_dump = stub_yaml_dump,
      yaml_safe_load = stub_yaml_safe_load,
      int_max_str_digits = 4300\<rparr>"

text \<open>Runners: every program exits with 0 and no output; no program ever exits.\<close>

definition all_succeed :: "invocation \<Rightarrow> proc" where
  "all_succeed c = Exits 1 0 [] []"

definition never_exits :: "invocation \<Rightarrow> proc" where
  "never_exits c = NeverExits"

text \<open>A host on which \<^verbatim>\<open>zpool\<close> is not installed and every other program succeeds.\<close>

definition zpool_missing :: "invocation \<Rightarrow> proc" where
  "zpool_missing c =
     (if args c = [''zpool'', ''status'', ''-j'']
      then Fails (OSError (''[Errno 2] No such file or directory: 'zpool'' @ [CHR 0x27]))
      else Exits 1 0 ''ok'' [])"

text \<open>A host on which \<^verbatim>\<open>zpool\<close> returns 1 and every other program succeeds.\<close>

definition zpool_nonzero :: "invocation \<Rightarrow> proc" where
  "zpool_nonzero c =
     (if args c = [''zpool'', ''status'', ''-j'']
      then Exits 1 1 [] ''no pools available''
      else Exits 1 0 ''ok'' [])"

text \<open>A form that names a site and a device for the bootstrap medium.\<close>

definition usb_form :: "string \<Rightarrow> string \<Rightarrow> form" where
  "usb_form site_name usb_device = (\<lambda>k.
     if k = ''site_name'' then [site_name]
     else if k = ''usb_device'' then [usb_device]
     else [])"

text \<open>A playbook run that fails.\<close>

definition playbook_fails :: "invocation \<Rightarrow> proc" where
  "playbook_fails c = Exits 7 2 [] ''ERROR! the playbook could not be found''"

definition empty_world :: world where
  "empty_world = \<lparr>nodes = [], calls = [], flashes = [], syscalls = []\<rparr>"

text \<open>
  Three stores: one that holds the record of \<^verbatim>\<open>lab1\<close>; the same with a second file
  that is not YAML; and the one in which the file of \<^verbatim>\<open>lab1\<close> has been opened for
  writing and nothing written yet.
\<close>

definition lab_store :: world where
  "lab_store =
     \<lparr>nodes = [(''/opt'', Dir), (''/opt/brewnix'', Dir), (''/opt/brewnix/config'', Dir),
               (''/opt/brewnix/config/sites'', Dir),
               (''/opt/brewnix/config/sites/lab1.yml'', File (lab_yaml ''lab1'' ''50''))],
      calls = [], flashes = [], syscalls = []\<rparr>"

definition store_with_bad_file :: world where
  "store_with_bad_file =
     lab_store\<lparr>nodes := nodes lab_store @ [(''/opt/brewnix/config/sites/bad.yml'', File ''{'')]\<rparr>"

definition half_written_store :: world where
  "half_written_store =
     \<lparr>nodes = [(''/opt'', Dir), (''/opt/brewnix'', Dir), (''/opt/brewnix/config'', Dir),
               (''/opt/brewnix/config/sites'', Dir),
               (''/opt/brewnix/config/sites/lab1.yml'', File [])],
      calls = [], flashes = [], syscalls = []\<rparr>"

definition post :: "form \<Rightarrow> request" where
  "post f = \<lparr>request_method = POST, form = f\<rparr>"

section \<open>Properties\<close>

subsection \<open>Running a process\<close>

lemma run_list_eq:
  "run_list e argv dir w =
     (case runner e \<lparr>args = argv, cwd = dir, shell = False, timeout = None\<rparr> of
        Exits d rc out err \<Rightarrow> Ok \<lparr>returncode = rc, stdout = out, stderr = err\<rparr>
      | Fails x \<Rightarrow> Exc x
      | NeverExits \<Rightarrow> Hang,
      w\<lparr>calls := calls w @ [\<lparr>args = argv, cwd = dir, shell = False, timeout = None\<rparr>]\<rparr>)"
  by (simp add: run_list_def subprocess_run_def split: proc.splits)

lemmas io_defs = ret_def lift_def bind_io_def try_except_def flash_def run_list_eq

lemmas call_defs = zpool_call_def df_call_def free_call_def git_status_call_def git_log_call_def

subsection \<open>The inventory\<close>

text \<open>
  C10. The inventory of virtual machines and containers is a constant: in every state,
  \<^verbatim>\<open>get_proxmox_status\<close> returns the same dictionary (the machines \<^verbatim>\<open>truenas\<close>, 100,
  and \<^verbatim>\<open>nextcloud\<close>, 101, the container \<^verbatim>\<open>monitoring\<close>, 200, all running), changes
  nothing, and never takes the branch that reports an error; \<^verbatim>\<open>/api/vms\<close> answers
  with that dictionary.
\<close>

theorem get_proxmox_status_constant:
  "(let inventory = PDict (fmap_of_list
        [(''vms'', PList
            [PDict (fmap_of_list
               [(''name'', PStr ''truenas''), (''status'', PStr ''running''), (''vmid'', PInt 100)]),
             PDict (fmap_of_list
               [(''name'', PStr ''nextcloud''), (''status'', PStr ''running''), (''vmid'', PInt 101)])]),
         (''containers'', PList
            [PDict (fmap_of_list
               [(''name'', PStr ''monitoring''), (''status'', PStr ''running''), (''vmid'', PInt 200)])])])
    in get_proxmox_status w = (Ok inventory, w) \<and> api_vms w = (Ok (Jsonify inventory), w))"
  by (simp add: get_proxmox_status_def api_vms_def vm_entry_def io_defs)

subsection \<open>Bootstrap media\<close>

text \<open>
  C2. Whatever the site name is, \<^verbatim>\<open>create_usb\<close> starts one process whose argument
  vector has five entries: the tool, \<^verbatim>\<open>--site-config\<close>, the path of the site's file,
  \<^verbatim>\<open>--usb-device\<close>, the device. The site name is copied character by character into
  the third entry and into no other; the vector goes to the program as it is, no shell
  reads it.
\<close>

theorem create_usb_argument_vector:
  assumes "form req ''site_name'' = site_name # rest"
      and "form req ''usb_device'' = usb_device # rest'"
  shows "calls (snd (create_usb e req w)) = calls w @
           [\<lparr>args = [''/opt/brewnix/vendor/proxmox-nas/bootstrap/create-nas-usb.sh'',
                     ''--site-config'', ''/opt/brewnix/config/sites/'' @ site_name @ ''.yml'',
                     ''--usb-device'', usb_device],
             cwd = Some ''/opt/brewnix'', shell = False, timeout = None\<rparr>]"
proof -
  let ?c = "\<lparr>args = create_usb_args site_name usb_device, cwd = Some ''/opt/brewnix'',
              shell = False, timeout = None\<rparr>"
  have "calls (snd (create_usb e req w)) = calls w @ [?c]"
    using assms
    by (cases "runner e ?c") (simp_all add: create_usb_def io_defs form_item_def)
  then show ?thesis
    by (simp add: create_usb_args_def)
qed

text \<open>The site name \<^verbatim>\<open>; rm -rf /\<close> stays inside the third argument.\<close>

theorem create_usb_argument_vector_witness:
  "calls (snd (create_usb (stub_env all_succeed)
      \<lparr>request_method = POST, form = usb_form ''; rm -rf /'' ''/dev/sdz''\<rparr> empty_world)) =
     [\<lparr>args = [''/opt/brewnix/vendor/proxmox-nas/bootstrap/create-nas-usb.sh'',
               ''--site-config'', ''/opt/brewnix/config/sites/; rm -rf /.yml'',
               ''--usb-device'', ''/dev/sdz''],
       cwd = Some ''/opt/brewnix'', shell = False, timeout = None\<rparr>]"
  using create_usb_argument_vector
    [of "\<lparr>request_method = POST, form = usb_form ''; rm -rf /'' ''/dev/sdz''\<rparr>"
        "''; rm -rf /''" "[]" "''/dev/sdz''" "[]" "stub_env all_succeed" empty_world]
  by (simp add: usb_form_def empty_world_def)

subsection \<open>Deployment\<close>

text \<open>
  C7. For a site name \<open>s\<close>, \<^verbatim>\<open>deploy\<close> starts \<^verbatim>\<open>ansible-playbook\<close> with the playbook's
  path, \<^verbatim>\<open>-e\<close> and \<^verbatim>\<open>site_config_file=/opt/brewnix/config/sites/s.yml\<close>, in the
  directory \<^verbatim>\<open>/opt/brewnix\<close>. When the program returns 0 one message of success is
  flashed and none of category \<^verbatim>\<open>error\<close>; when it returns anything else one error
  message is flashed that carries the captured standard error.
\<close>

theorem deploy_invocation_and_outcome:
  assumes "form req ''site_name'' = s # rest"
      and "runner e \<lparr>args = [''ansible-playbook'',
                              ''/opt/brewnix/vendor/proxmox-nas/ansible/site.yml'',
                              ''-e'', ''site_config_file=/opt/brewnix/config/sites/'' @ s @ ''.yml''],
                      cwd = Some ''/opt/brewnix'', shell = False, timeout = None\<rparr>
             = Exits d rc out err"
  shows "deploy e req w =
           (Ok (Redirect ''dashboard''),
            w\<lparr>calls := calls w @
                  [\<lparr>args = [''ansible-playbook'',
                            ''/opt/brewnix/vendor/proxmox-nas/ansible/site.yml'',
                            ''-e'', ''site_config_file=/opt/brewnix/config/sites/'' @ s @ ''.yml''],
                    cwd = Some ''/opt/brewnix'', shell = False, timeout = None\<rparr>],
              flashes := flashes w @
                  [if rc = 0 then (''message'', ''Deployment completed successfully!'')
                   else (''error'', ''Deployment failed: '' @ err)]\<rparr>)"
  using assms by (simp add: deploy_def deploy_args_def io_defs form_item_def)

theorem deploy_invocation_and_outcome_witness:
  "deploy (stub_env all_succeed) \<lparr>request_method = POST, form = lab_form ''lab1'' ''50''\<rparr>
       lab_store =
     (Ok (Redirect ''dashboard''),
      lab_store\<lparr>calls :=
            [\<lparr>args = [''ansible-playbook'',
                      ''/opt/brewnix/vendor/proxmox-nas/ansible/site.yml'',
                      ''-e'', ''site_config_file=/opt/brewnix/config/sites/lab1.yml''],
              cwd = Some ''/opt/brewnix'', shell = False, timeout = None\<rparr>],
         flashes := [(''message'', ''Deployment completed successfully!'')]\<rparr>)
   \<and> flashes (snd (deploy (stub_env playbook_fails)
         \<lparr>request_method = POST, form = lab_form ''lab1'' ''50''\<rparr> lab_store)) =
       [(''error'', ''Deployment failed: ERROR! the playbook could not be found'')]"
  using deploy_invocation_and_outcome
      [of "\<lparr>request_method = POST, form = lab_form ''lab1'' ''50''\<rparr>" "''lab1''" "[]"
          "stub_env all_succeed" 1 0 "[]" "[]" lab_store]
    deploy_invocation_and_outcome
      [of "\<lparr>request_method = POST, form = lab_form ''lab1'' ''50''\<rparr>" "''lab1''" "[]"
          "stub_env playbook_fails" 7 2 "[]" "''ERROR! the playbook could not be found''"
          lab_store]
  by (simp add: lab_form_def stub_env_def all_succeed_def playbook_fails_def lab_store_def)

text \<open>
  C3, as amended. \<^verbatim>\<open>deploy\<close> never looks into the store: for every site name, stored or
  not, it starts the playbook once, its result does not depend on the file system, which
  it leaves as it is, and it never raises: there is no answer \<^verbatim>\<open>NotFound\<close>.
\<close>

theorem deploy_never_consults_store:
  assumes "form req ''site_name'' = s # rest"
  shows "calls (snd (deploy e req w)) = calls w @
           [\<lparr>args = deploy_args s, cwd = Some ''/opt/brewnix'', shell = False, timeout = None\<rparr>]
       \<and> fst (deploy e req (w\<lparr>nodes := ns\<rparr>)) = fst (deploy e req w)
       \<and> nodes (snd (deploy e req w)) = nodes w
       \<and> (fst (deploy e req w) = Ok (Redirect ''dashboard'') \<or> fst (deploy e req w) = Hang)"
  using assms
  by (cases "runner e \<lparr>args = deploy_args s, cwd = Some ''/opt/brewnix'', shell = False, timeout = None\<rparr>")
     (simp_all add: deploy_def io_defs form_item_def)

theorem deploy_never_consults_store_witness:
  "calls (snd (deploy (stub_env all_succeed)
       \<lparr>request_method = POST, form = usb_form ''missing-site'' []\<rparr> empty_world)) =
     [\<lparr>args = deploy_args ''missing-site'', cwd = Some ''/opt/brewnix'', shell = False, timeout = None\<rparr>]
   \<and> fst (deploy (stub_env all_succeed)
       \<lparr>request_method = POST, form = usb_form ''missing-site'' []\<rparr> empty_world) =
     fst (deploy (stub_env all_succeed)
       \<lparr>request_method = POST, form = usb_form ''missing-site'' []\<rparr>
       (empty_world\<lparr>nodes := nodes lab_store\<rparr>))"
  using deploy_never_consults_store
    [of "\<lparr>request_method = POST, form = usb_form ''missing-site'' []\<rparr>" "''missing-site''" "[]"
        "stub_env all_succeed" empty_world "nodes lab_store"]
  by (simp add: usb_form_def empty_world_def)

text \<open>
  In an empty store, deploying \<^verbatim>\<open>missing-site\<close> starts the playbook, and the request
  ends with the redirect and the playbook's complaint.
\<close>

theorem deploy_missing_site_counterexample:
  "map_of (nodes empty_world) ''/opt/brewnix/config/sites/missing-site.yml'' = None
   \<and> deploy (stub_env playbook_fails)
         \<lparr>request_method = POST, form = usb_form ''missing-site'' []\<rparr> empty_world =
       (Ok (Redirect ''dashboard''),
        \<lparr>nodes = [],
         calls = [\<lparr>args = [''ansible-playbook'',
                           ''/opt/brewnix/vendor/proxmox-nas/ansible/site.yml'',
                           ''-e'', ''site_config_file=/opt/brewnix/config/sites/missing-site.yml''],
                   cwd = Some ''/opt/brewnix'', shell = False, timeout = None\<rparr>],
         flashes = [(''error'', ''Deployment failed: ERROR! the playbook could not be found'')],
         syscalls = []\<rparr>)"
  by (simp add: deploy_def deploy_args_def io_defs form_item_def stub_env_def playbook_fails_def
      usb_form_def empty_world_def)

subsection \<open>Timeouts\<close>

lemma get_system_info_calls:
  "\<forall>c \<in> set (calls (snd (get_system_info e w))). c \<in> set (calls w) \<or> timeout c = None"
  by (auto simp add: get_system_info_def io_defs loads_def split: proc.splits sum.splits if_splits)

lemma get_git_status_calls:
  "\<forall>c \<in> set (calls (snd (get_git_status e w))). c \<in> set (calls w) \<or> timeout c = None"
  by (auto simp add: get_git_status_def io_defs Let_def split: proc.splits sum.splits if_splits)

text \<open>
  C4, as amended. No call of \<^verbatim>\<open>subprocess.run\<close> passes a timeout: \<^verbatim>\<open>deploy\<close> and
  \<^verbatim>\<open>create_usb\<close> start one process each without one, and neither do the status
  functions. The two handlers wait for as long as the program runs: they never return
  exactly when the program never exits, and there is no flag or exit code for a timeout.
\<close>

theorem no_call_has_a_timeout:
  assumes "form req ''site_name'' = s # rest" and "form req ''usb_device'' = dev # rest'"
  shows "(let c = \<lparr>args = deploy_args s, cwd = Some ''/opt/brewnix'', shell = False, timeout = None\<rparr>
          in calls (snd (deploy e req w)) = calls w @ [c]
             \<and> (fst (deploy e req w) = Hang) = (runner e c = NeverExits))
       \<and> (let c = \<lparr>args = create_usb_args s dev, cwd = Some ''/opt/brewnix'', shell = False,
                    timeout = None\<rparr>
          in calls (snd (create_usb e req w)) = calls w @ [c]
             \<and> (fst (create_usb e req w) = Hang) = (runner e c = NeverExits))
       \<and> (\<forall>c \<in> set (calls (snd (get_system_info e w))). c \<in> set (calls w) \<or> timeout c = None)
       \<and> (\<forall>c \<in> set (calls (snd (get_git_status e w))). c \<in> set (calls w) \<or> timeout c = None)"
proof -
  have a: "let c = \<lparr>args = deploy_args s, cwd = Some ''/opt/brewnix'', shell = False, timeout = None\<rparr>
          in calls (snd (deploy e req w)) = calls w @ [c]
             \<and> (fst (deploy e req w) = Hang) = (runner e c = NeverExits)"
    using assms(1)
    by (cases "runner e \<lparr>args = deploy_args s, cwd = Some ''/opt/brewnix'', shell = False, timeout = None\<rparr>")
       (simp_all add: deploy_def io_defs form_item_def)
  have b: "let c = \<lparr>args = create_usb_args s dev, cwd = Some ''/opt/brewnix'', shell = False,
                    timeout = None\<rparr>
          in calls (snd (create_usb e req w)) = calls w @ [c]
             \<and> (fst (create_usb e req w) = Hang) = (runner e c = NeverExits)"
    using assms
    by (cases "runner e \<lparr>args = create_usb_args s dev, cwd = Some ''/opt/brewnix'', shell = False, timeout = None\<rparr>")
       (simp_all add: create_usb_def io_defs form_item_def)
  have c: "\<forall>c \<in> set (calls (snd (get_system_info e w))). c \<in> set (calls w) \<or> timeout c = None"
    by (rule get_system_info_calls)
  have d: "\<forall>c \<in> set (calls (snd (get_git_status e w))). c \<in> set (calls w) \<or> timeout c = None"
    by (rule get_git_status_calls)
  show ?thesis
    by (intro conjI) (rule a, rule b, rule c, rule d)
qed

theorem no_call_has_a_timeout_witness:
  "fst (deploy (stub_env never_exits)
      \<lparr>request_method = POST, form = usb_form ''lab1'' ''/dev/sdz''\<rparr> empty_world) = Hang
   \<and> fst (create_usb (stub_env never_exits)
      \<lparr>request_method = POST, form = usb_form ''lab1'' ''/dev/sdz''\<rparr> empty_world) = Hang"
  using no_call_has_a_timeout
    [of "\<lparr>request_method = POST, form = usb_form ''lab1'' ''/dev/sdz''\<rparr>" "''lab1''" "[]"
        "''/dev/sdz''" "[]" "stub_env never_exits" empty_world]
  by (simp add: usb_form_def stub_env_def never_exits_def Let_def)

text \<open>A playbook that never exits: \<^verbatim>\<open>deploy\<close> does not return.\<close>

theorem deploy_waits_forever_counterexample:
  "deploy (stub_env never_exits) \<lparr>request_method = POST, form = usb_form ''lab1'' []\<rparr> empty_world =
     (Hang,
      \<lparr>nodes = [],
       calls = [\<lparr>args = deploy_args ''lab1'', cwd = Some ''/opt/brewnix'', shell = False,
                 timeout = None\<rparr>],
       flashes = [], syscalls = []\<rparr>)"
  by (simp add: deploy_def io_defs form_item_def stub_env_def never_exits_def usb_form_def
      empty_world_def)

subsection \<open>Status\<close>

lemma get_system_info_fst:
  "fst (get_system_info e w) =
     (case runner e zpool_call of
        NeverExits \<Rightarrow> Hang
      | Fails x \<Rightarrow> Ok (error_dict x)
      | Exits dz rz oz ez \<Rightarrow>
          (case (if rz = 0 then json_loads e oz else Inr (PDict fmempty)) of
             Inl x \<Rightarrow> Ok (error_dict x)
           | Inr zfs \<Rightarrow>
               (case runner e df_call of
                  NeverExits \<Rightarrow> Hang
                | Fails x \<Rightarrow> Ok (error_dict x)
                | Exits dd rd od ed \<Rightarrow>
                    (case runner e free_call of
                       NeverExits \<Rightarrow> Hang
                     | Fails x \<Rightarrow> Ok (error_dict x)
                     | Exits dm rm om em \<Rightarrow>
                         Ok (PDict (fmap_of_list
                           [(''hostname'', PStr (nodename e)),
                            (''zfs_pools'', zfs),
                            (''disk_usage'', PStr (py_strip od)),
                            (''memory'', PStr (py_strip om)),
                            (''timestamp'', PStr (now_isoformat e))]))))))"
  by (simp add: get_system_info_def io_defs loads_def call_defs split: proc.splits sum.splits)

lemma get_git_status_fst:
  "fst (get_git_status e w) =
     (case runner e git_status_call of
        NeverExits \<Rightarrow> Hang
      | Fails x \<Rightarrow> Ok (error_dict x)
      | Exits ds rs os es \<Rightarrow>
          (case runner e git_log_call of
             NeverExits \<Rightarrow> Hang
           | Fails x \<Rightarrow> Ok (error_dict x)
           | Exits dl rl ol el \<Rightarrow>
               Ok (PDict (fmap_of_list
                 [(''status'', PStr (py_strip os)),
                  (''recent_commits'',
                     PList (if py_strip ol \<noteq> [] then map PStr (py_split CHR 0x0A (py_strip ol))
                            else []))]))))"
  by (simp add: get_git_status_def io_defs call_defs Let_def split: proc.splits)

lemma get_proxmox_status_fst: "\<exists>vm. get_proxmox_status w = (Ok vm, w)"
  by (simp add: get_proxmox_status_def io_defs)

lemma dashboard_fst:
  "fst (dashboard e w) =
    (case fst (get_system_info e w) of
       Hang \<Rightarrow> Hang
     | Exc x \<Rightarrow> Ok (Render ''error.html'' [(''error'', PStr (str_exn x))])
     | Ok si \<Rightarrow>
        (case fst (get_git_status e w) of
           Hang \<Rightarrow> Hang
         | Exc x \<Rightarrow> Ok (Render ''error.html'' [(''error'', PStr (str_exn x))])
         | Ok gs \<Rightarrow> Ok (Render ''dashboard.html''
               [(''system_info'', si),
                (''vm_status'', (case fst (get_proxmox_status w) of Ok vm \<Rightarrow> vm | _ \<Rightarrow> PNone)),
                (''git_status'', gs)])))"
proof -
  obtain r1 w1 where 1: "get_system_info e w = (r1, w1)" by (cases "get_system_info e w")
  obtain r2 w2 where 2: "get_git_status e w1 = (r2, w2)" by (cases "get_git_status e w1")
  have 3: "fst (get_git_status e w) = r2"
    using 2 get_git_status_fst[of e w] get_git_status_fst[of e w1] by simp
  show ?thesis
    using 1 2 3
    by (simp add: dashboard_def bind_io_def try_except_def ret_def get_proxmox_status_def
         split: res.splits)
qed

text \<open>
  C1, as amended. A source that returns a code other than 0 does not keep the others
  from being reported: the pools are then the empty dictionary, and disk usage and memory
  are what \<^verbatim>\<open>df\<close> and \<^verbatim>\<open>free\<close> printed whatever they returned; no failure marker is
  recorded. A source that cannot be started, or pools whose output does not parse, turns
  the whole of the system information into the one entry \<^verbatim>\<open>error\<close>. The version-control
  fragment is computed apart: unless a process never exits, the dashboard shows the
  system information, the inventory and the repository's status, each as its own function
  returns it.
\<close>

theorem status_failure_containment:
  "(runner e zpool_call = Exits dz rz oz ez \<and> (rz = 0 \<longrightarrow> json_loads e oz = Inr zfs)
      \<and> runner e df_call = Exits dd rd od ed \<and> runner e free_call = Exits dm rm om em
    \<longrightarrow> fst (get_system_info e w) =
          Ok (PDict (fmap_of_list
            [(''hostname'', PStr (nodename e)),
             (''zfs_pools'', if rz = 0 then zfs else PDict fmempty),
             (''disk_usage'', PStr (py_strip od)),
             (''memory'', PStr (py_strip om)),
             (''timestamp'', PStr (now_isoformat e))])))
   \<and> (runner e zpool_call = Fails x
        \<or> (runner e zpool_call = Exits dz 0 oz ez \<and> json_loads e oz = Inl x)
        \<or> (runner e zpool_call = Exits dz rz oz ez \<and> (rz = 0 \<longrightarrow> json_loads e oz = Inr zfs)
            \<and> (runner e df_call = Fails x
                \<or> (runner e df_call = Exits dd rd od ed \<and> runner e free_call = Fails x)))
    \<longrightarrow> fst (get_system_info e w) = Ok (PDict (fmap_of_list [(''error'', PStr (str_exn x))])))
   \<and> (fst (get_system_info e w) \<noteq> Hang \<and> fst (get_git_status e w) \<noteq> Hang
    \<longrightarrow> (\<exists>si vm gs. fst (get_system_info e w) = Ok si \<and> fst (get_proxmox_status w) = Ok vm
          \<and> fst (get_git_status e w) = Ok gs
          \<and> fst (dashboard e w) =
              Ok (Render ''dashboard.html''
                    [(''system_info'', si), (''vm_status'', vm), (''git_status'', gs)])))"
proof (intro conjI impI)
  assume "runner e zpool_call = Exits dz rz oz ez \<and> (rz = 0 \<longrightarrow> json_loads e oz = Inr zfs)
      \<and> runner e df_call = Exits dd rd od ed \<and> runner e free_call = Exits dm rm om em"
  then show "fst (get_system_info e w) =
          Ok (PDict (fmap_of_list
            [(''hostname'', PStr (nodename e)),
             (''zfs_pools'', if rz = 0 then zfs else PDict fmempty),
             (''disk_usage'', PStr (py_strip od)),
             (''memory'', PStr (py_strip om)),
             (''timestamp'', PStr (now_isoformat e))]))"
    by (simp add: get_system_info_fst)
next
  assume "runner e zpool_call = Fails x
        \<or> (runner e zpool_call = Exits dz 0 oz ez \<and> json_loads e oz = Inl x)
        \<or> (runner e zpool_call = Exits dz rz oz ez \<and> (rz = 0 \<longrightarrow> json_loads e oz = Inr zfs)
            \<and> (runner e df_call = Fails x
                \<or> (runner e df_call = Exits dd rd od ed \<and> runner e free_call = Fails x)))"
  then show "fst (get_system_info e w) = Ok (PDict (fmap_of_list [(''error'', PStr (str_exn x))]))"
    by (auto simp add: get_system_info_fst error_dict_def)
next
  assume h: "fst (get_system_info e w) \<noteq> Hang \<and> fst (get_git_status e w) \<noteq> Hang"
  have s: "\<exists>si. fst (get_system_info e w) = Ok si"
    using h by (auto simp add: get_system_info_fst split: proc.splits sum.splits if_splits)
  have g: "\<exists>gs. fst (get_git_status e w) = Ok gs"
    using h by (auto simp add: get_git_status_fst split: proc.splits)
  from s g get_proxmox_status_fst[of w]
  show "\<exists>si vm gs. fst (get_system_info e w) = Ok si \<and> fst (get_proxmox_status w) = Ok vm
          \<and> fst (get_git_status e w) = Ok gs
          \<and> fst (dashboard e w) =
              Ok (Render ''dashboard.html''
                    [(''system_info'', si), (''vm_status'', vm), (''git_status'', gs)])"
    by (auto simp add: dashboard_fst)
qed

theorem status_failure_containment_witness:
  "fst (get_system_info (stub_env zpool_nonzero) empty_world) =
     Ok (PDict (fmap_of_list
        [(''hostname'', PStr ''nas1''),
         (''zfs_pools'', PDict fmempty),
         (''disk_usage'', PStr ''ok''),
         (''memory'', PStr ''ok''),
         (''timestamp'', PStr ''2024-05-01T12:00:00'')]))
   \<and> fst (get_system_info (stub_env zpool_missing) empty_world) =
     Ok (PDict (fmap_of_list
        [(''error'', PStr (''[Errno 2] No such file or directory: 'zpool'' @ [CHR 0x27]))]))"
  using status_failure_containment
     [of "stub_env zpool_nonzero" 1 1 "[]" "''no pools available''" "PDict fmempty"
         1 0 "''ok''" "[]" 1 0 "''ok''" "[]" empty_world]
    status_failure_containment
     [of "stub_env zpool_missing" _ _ _ _ _ _ _ _ _ _ _ _ _ empty_world
         "OSError (''[Errno 2] No such file or directory: 'zpool'' @ [CHR 0x27])"]
  by (simp add: stub_env_def zpool_nonzero_def zpool_missing_def call_defs py_strip_def py_isspace_def)

text \<open>
  Where \<^verbatim>\<open>zpool\<close> is not installed, \<^verbatim>\<open>df\<close> and \<^verbatim>\<open>free\<close> would succeed, yet they are
  not started and the system information is the error alone.
\<close>

theorem one_failed_source_blanks_system_info:
  "get_system_info (stub_env zpool_missing) empty_world =
     (Ok (PDict (fmap_of_list
        [(''error'', PStr (''[Errno 2] No such file or directory: 'zpool'' @ [CHR 0x27]))])),
      empty_world\<lparr>calls := [zpool_call]\<rparr>)
   \<and> runner (stub_env zpool_missing) df_call = Exits 1 0 ''ok'' []
   \<and> runner (stub_env zpool_missing) free_call = Exits 1 0 ''ok'' []"
  by (simp add: get_system_info_def io_defs call_defs stub_env_def zpool_missing_def
      empty_world_def error_dict_def)

subsection \<open>The store: directories, paths and the two handlers\<close>

lemma perform_simps:
  "nodes (perform op w) = apply_op op (nodes w)"
  "calls (perform op w) = calls w"
  "flashes (perform op w) = flashes w"
  "syscalls (perform op w) = syscalls w @ [op]"
  by (simp_all add: perform_def)

lemma states_during_length: "length (states_during ns ops) = Suc (length ops)"
  by (induction ops arbitrary: ns) simp_all



lemma map_of_dirs_None:
  "p \<notin> set ks \<Longrightarrow> map_of (map (\<lambda>d. (d, Dir)) ks) p = None"
  by (induction ks) auto

lemma map_of_append_dirs:
  "p \<notin> set ks \<Longrightarrow> map_of (ns @ map (\<lambda>d. (d, Dir)) ks) p = map_of ns p"
  by (simp add: map_add_def map_of_dirs_None split: option.splits)


lemma mkdir_chain_keeps:
  "mkdir_chain e ds w = (r, w1) \<Longrightarrow> map_of (nodes w) p = Some n \<Longrightarrow> map_of (nodes w1) p = Some n"
proof (induction ds arbitrary: w)
  case Nil
  then show ?case by simp
next
  case (Cons d ds)
  show ?case
  proof (cases "map_of (nodes w) d")
    case None
    show ?thesis
    proof (cases "refuses_write e d")
      case True
      with None Cons.prems show ?thesis by simp
    next
      case False
      have "map_of (nodes (perform (MkDir d) w)) p = Some n"
        using Cons.prems(2) by (simp add: perform_simps map_add_Some_iff)
      moreover have "mkdir_chain e ds (perform (MkDir d) w) = (r, w1)"
        using Cons.prems(1) None False by simp
      ultimately show ?thesis using Cons.IH by blast
    qed
  next
    case (Some m)
    then show ?thesis using Cons by (cases m) (auto split: if_splits)
  qed
qed

lemma mkdir_chain_makes:
  "mkdir_chain e ds w = (Ok u, w1) \<Longrightarrow> d \<in> set ds \<Longrightarrow> map_of (nodes w1) d = Some Dir"
proof (induction ds arbitrary: w)
  case Nil
  then show ?case by simp
next
  case (Cons c ds)
  show ?case
  proof (cases "map_of (nodes w) c")
    case None
    with Cons.prems(1) have nr: "\<not> refuses_write e c"
      and run: "mkdir_chain e ds (perform (MkDir c) w) = (Ok u, w1)"
      by (auto split: if_splits)
    show ?thesis
    proof (cases "d = c")
      case True
      have "map_of (nodes (perform (MkDir c) w)) c = Some Dir"
        using None by (simp add: perform_simps map_add_Some_iff)
      with run True show ?thesis using mkdir_chain_keeps by blast
    next
      case False
      with Cons.prems(2) have "d \<in> set ds" by simp
      with run show ?thesis using Cons.IH by blast
    qed
  next
    case (Some m)
    with Cons.prems(1) have m: "m = Dir" and run: "mkdir_chain e ds w = (Ok u, w1)"
      by (cases m; simp)+
    show ?thesis
    proof (cases "d = c")
      case True
      with Some m run show ?thesis using mkdir_chain_keeps by blast
    next
      case False
      with Cons.prems(2) have "d \<in> set ds" by simp
      with run show ?thesis using Cons.IH by blast
    qed
  qed
qed

lemma mkdir_chain_nodes:
  "mkdir_chain e ds w = (r, w1) \<Longrightarrow>
     \<exists>ks. nodes w1 = nodes w @ map (\<lambda>d. (d, Dir)) ks \<and> set ks \<subseteq> set ds
          \<and> syscalls w1 = syscalls w @ map MkDir ks
          \<and> calls w1 = calls w \<and> flashes w1 = flashes w"
proof (induction ds arbitrary: w)
  case Nil
  then have "nodes w1 = nodes w @ map (\<lambda>d. (d, Dir)) [] \<and> set [] \<subseteq> set ([] :: string list)
          \<and> syscalls w1 = syscalls w @ map MkDir []
          \<and> calls w1 = calls w \<and> flashes w1 = flashes w"
    by simp
  then show ?case by blast
next
  case (Cons c ds)
  show ?case
  proof (cases "map_of (nodes w) c")
    case None
    show ?thesis
    proof (cases "refuses_write e c")
      case True
      with None Cons.prems
      have "nodes w1 = nodes w @ map (\<lambda>d. (d, Dir)) [] \<and> set [] \<subseteq> set (c # ds)
          \<and> syscalls w1 = syscalls w @ map MkDir []
          \<and> calls w1 = calls w \<and> flashes w1 = flashes w"
        by simp
      then show ?thesis by blast
    next
      case False
      with None Cons.prems have "mkdir_chain e ds (perform (MkDir c) w) = (r, w1)"
        by simp
      from Cons.IH[OF this] obtain ks where
        "nodes w1 = (nodes w @ [(c, Dir)]) @ map (\<lambda>d. (d, Dir)) ks" "set ks \<subseteq> set ds"
        "syscalls w1 = (syscalls w @ [MkDir c]) @ map MkDir ks"
        "calls w1 = calls w" "flashes w1 = flashes w"
        by (auto simp add: perform_simps)
      then have "nodes w1 = nodes w @ map (\<lambda>d. (d, Dir)) (c # ks) \<and> set (c # ks) \<subseteq> set (c # ds)
          \<and> syscalls w1 = syscalls w @ map MkDir (c # ks)
          \<and> calls w1 = calls w \<and> flashes w1 = flashes w"
        by auto
      then show ?thesis by blast
    qed
  next
    case (Some m)
    show ?thesis
    proof (cases m)
      case Dir
      with Some Cons.prems have "mkdir_chain e ds w = (r, w1)" by simp
      from Cons.IH[OF this] show ?thesis by auto
    next
      case (File x)
      with Some Cons.prems
      have "nodes w1 = nodes w @ map (\<lambda>d. (d, Dir)) [] \<and> set [] \<subseteq> set (c # ds)
          \<and> syscalls w1 = syscalls w @ map MkDir []
          \<and> calls w1 = calls w \<and> flashes w1 = flashes w"
        by simp
      then show ?thesis by blast
    qed
  qed
qed

lemma mkdir_chain_succeeds:
  "(\<forall>d \<in> set ds. (\<forall>b. map_of (nodes w) d \<noteq> Some (File b)) \<and> \<not> refuses_write e d)
     \<Longrightarrow> \<exists>w1. mkdir_chain e ds w = (Ok (), w1)"
proof (induction ds arbitrary: w)
  case Nil
  then show ?case by simp
next
  case (Cons c ds)
  show ?case
  proof (cases "map_of (nodes w) c")
    case None
    have "\<forall>d \<in> set ds. (\<forall>b. map_of (nodes (perform (MkDir c) w)) d \<noteq> Some (File b))
            \<and> \<not> refuses_write e d"
      using Cons.prems by (auto simp add: perform_simps map_add_Some_iff)
    from Cons.IH[OF this] obtain w1 where "mkdir_chain e ds (perform (MkDir c) w) = (Ok (), w1)"
      by blast
    with None Cons.prems show ?thesis by simp
  next
    case (Some m)
    with Cons.prems have m: "m = Dir" by (cases m) auto
    from Cons.prems have "\<forall>d \<in> set ds. (\<forall>b. map_of (nodes w) d \<noteq> Some (File b))
            \<and> \<not> refuses_write e d"
      by simp
    from Cons.IH[OF this] obtain w1 where "mkdir_chain e ds w = (Ok (), w1)" by blast
    with Some m show ?thesis by simp
  qed
qed

lemma mkdir_chain_distinct:
  "mkdir_chain e ds w = (r, w1) \<Longrightarrow> distinct (map fst (nodes w)) \<Longrightarrow> distinct (map fst (nodes w1))"
proof (induction ds arbitrary: w)
  case Nil
  then show ?case by simp
next
  case (Cons c ds)
  show ?case
  proof (cases "map_of (nodes w) c")
    case None
    show ?thesis
    proof (cases "refuses_write e c")
      case True
      with None Cons.prems show ?thesis by simp
    next
      case False
      from None have "c \<notin> fst ` set (nodes w)" by (simp add: map_of_eq_None_iff)
      with Cons.prems(2) have "distinct (map fst (nodes (perform (MkDir c) w)))"
        by (simp add: perform_simps)
      moreover from None False Cons.prems(1)
      have "mkdir_chain e ds (perform (MkDir c) w) = (r, w1)" by simp
      ultimately show ?thesis using Cons.IH by blast
    qed
  next
    case (Some m)
    then show ?thesis using Cons by (cases m) auto
  qed
qed

lemma config_ancestors:
  "ancestors_from [] (path_parts CONFIG_DIR) =
     [''/opt'', ''/opt/brewnix'', ''/opt/brewnix/config'', ''/opt/brewnix/config/sites'']"
  by (simp add: path_parts_def CONFIG_DIR_def)

lemma mkdir_parents_result:
  assumes "mkdir_parents e CONFIG_DIR w = (Ok u, w1)"
  shows "map_of (nodes w1) ''/opt'' = Some Dir"
    and "map_of (nodes w1) ''/opt/brewnix'' = Some Dir"
    and "map_of (nodes w1) ''/opt/brewnix/config'' = Some Dir"
    and "map_of (nodes w1) ''/opt/brewnix/config/sites'' = Some Dir"
proof -
  have run: "mkdir_chain e [''/opt'', ''/opt/brewnix'', ''/opt/brewnix/config'',
        ''/opt/brewnix/config/sites''] w = (Ok u, w1)"
    using assms unfolding mkdir_parents_def config_ancestors .
  show "map_of (nodes w1) ''/opt'' = Some Dir"
    by (rule mkdir_chain_makes[OF run]) simp
  show "map_of (nodes w1) ''/opt/brewnix'' = Some Dir"
    by (rule mkdir_chain_makes[OF run]) simp
  show "map_of (nodes w1) ''/opt/brewnix/config'' = Some Dir"
    by (rule mkdir_chain_makes[OF run]) simp
  show "map_of (nodes w1) ''/opt/brewnix/config/sites'' = Some Dir"
    by (rule mkdir_chain_makes[OF run]) simp
qed

lemma mkdir_parents_nodes:
  assumes "mkdir_parents e CONFIG_DIR w = (r, w1)"
  shows "\<exists>ks. nodes w1 = nodes w @ map (\<lambda>d. (d, Dir)) ks
          \<and> set ks \<subseteq> {''/opt'', ''/opt/brewnix'', ''/opt/brewnix/config'', ''/opt/brewnix/config/sites''}
          \<and> syscalls w1 = syscalls w @ map MkDir ks
          \<and> calls w1 = calls w \<and> flashes w1 = flashes w"
proof -
  have run: "mkdir_chain e [''/opt'', ''/opt/brewnix'', ''/opt/brewnix/config'',
        ''/opt/brewnix/config/sites''] w = (r, w1)"
    using assms unfolding mkdir_parents_def config_ancestors .
  from mkdir_chain_nodes[OF run] show ?thesis by simp
qed

lemma mkdir_parents_succeeds:
  assumes "\<forall>d \<in> {''/opt'', ''/opt/brewnix'', ''/opt/brewnix/config'', ''/opt/brewnix/config/sites''}.
             (\<forall>b. map_of (nodes w) d \<noteq> Some (File b)) \<and> \<not> refuses_write e d"
  shows "\<exists>w1. mkdir_parents e CONFIG_DIR w = (Ok (), w1)"
proof -
  have "\<forall>d \<in> set [''/opt'', ''/opt/brewnix'', ''/opt/brewnix/config'', ''/opt/brewnix/config/sites''].
             (\<forall>b. map_of (nodes w) d \<noteq> Some (File b)) \<and> \<not> refuses_write e d"
    using assms by simp
  from mkdir_chain_succeeds[OF this] show ?thesis
    unfolding mkdir_parents_def config_ancestors .
qed

lemma py_int_not_Hang: "py_int m s \<noteq> Hang"
  by (simp add: py_int_def Let_def)

lemma new_site_fields:
  assumes "request_method req = POST" and "new_site e req w = (Ok r, w')"
  shows "\<exists>s vt v i rl h u.
           form_item (form req) ''site_name'' = Ok s
         \<and> form_item (form req) ''vlan_id'' = Ok vt
         \<and> py_int (int_max_str_digits e) vt = Ok v
         \<and> form_item (form req) ''ip_range'' = Ok i
         \<and> form_item (form req) ''raid_level'' = Ok rl
         \<and> form_item (form req) ''api_host'' = Ok h
         \<and> form_item (form req) ''api_user'' = Ok u"
  using assms
  by (auto simp add: new_site_def bind_io_def lift_def split: res.splits)

lemma new_site_run:
  assumes "request_method req = POST"
      and "form_item (form req) ''site_name'' = Ok s"
      and "form_item (form req) ''vlan_id'' = Ok vt"
      and "py_int (int_max_str_digits e) vt = Ok v"
      and "form_item (form req) ''ip_range'' = Ok i"
      and "form_item (form req) ''raid_level'' = Ok rl"
      and "form_item (form req) ''api_host'' = Ok h"
      and "form_item (form req) ''api_user'' = Ok u"
  shows "new_site e req w =
     (case mkdir_parents e CONFIG_DIR w of
        (Ok a, w1) \<Rightarrow>
          (case open_w e (joinpath CONFIG_DIR (s @ ''.yml'')) w1 of
             (Ok t, w2) \<Rightarrow>
               (Ok (Redirect ''sites''),
                (perform (WriteAll t (yaml_dump e (site_config s v i (form req ''system_disks'')
                          (form req ''data_disks'') rl h u))) w2)
                  \<lparr>flashes := flashes w2 @ [(''message'', ''Site configuration created successfully!'')]\<rparr>)
           | (Exc x, w2) \<Rightarrow> (Exc x, w2)
           | (Hang, w2) \<Rightarrow> (Hang, w2))
      | (Exc x, w1) \<Rightarrow> (Exc x, w1)
      | (Hang, w1) \<Rightarrow> (Hang, w1))"
  using assms
  by (simp add: new_site_def bind_io_def lift_def ret_def flash_def write_file_def getlist_def
      perform_simps split: res.splits prod.splits)

lemma new_site_rejects:
  assumes "request_method req = POST"
      and "(\<exists>k \<in> {''site_name'', ''vlan_id'', ''ip_range'', ''raid_level'', ''api_host'', ''api_user''}.
              form req k = [])
           \<or> (\<exists>vt rest x. form req ''vlan_id'' = vt # rest \<and> py_int (int_max_str_digits e) vt = Exc x)"
  shows "\<exists>x. new_site e req w = (Exc x, w)"
  using assms
  by (auto simp add: new_site_def bind_io_def lift_def form_item_def py_int_not_Hang
      split: res.splits list.splits)

lemma open_w_Ok:
  assumes "open_w e p w1 = (Ok t, w2)"
  shows "w2 = perform (OpenTrunc t) w1" and "map_of (nodes w1) t \<noteq> Some Dir"
    and "\<not> refuses_write e t" and "resolve (nodes w1) p = Inr t" and "CHR 0x00 \<notin> set p"
  using assms by (auto simp add: open_w_def split: if_splits sum.splits)

lemma py_split_nonempty: "py_split sep s \<noteq> []"
  by (induction s) (auto split: list.splits)

lemma py_split_no_sep: "sep \<notin> set s \<Longrightarrow> py_split sep s = [s]"
  by (induction s) auto

lemma py_split_append: "py_split sep (a @ sep # b) = py_split sep a @ py_split sep b"
proof (induction a)
  case Nil
  then show ?case by simp
next
  case (Cons c cs)
  obtain p ps where p: "py_split sep cs = p # ps"
    using py_split_nonempty[of sep cs] by (cases "py_split sep cs") auto
  show ?case using Cons.IH by (simp add: p)
qed

lemma yml_name:
  assumes "CHR ''/'' \<notin> set s"
  shows "s @ ''.yml'' \<noteq> []" and "s @ ''.yml'' \<noteq> ''.''" and "s @ ''.yml'' \<noteq> ''..''"
    and "CHR ''/'' \<notin> set (s @ ''.yml'')" and "is_yml (s @ ''.yml'')"
proof -
  show "s @ ''.yml'' \<noteq> []" by simp
  show "s @ ''.yml'' \<noteq> ''.''"
  proof
    assume "s @ ''.yml'' = ''.''"
    then have "length (s @ ''.yml'') = length ''.''" by (rule arg_cong)
    then show False by simp
  qed
  show "s @ ''.yml'' \<noteq> ''..''"
  proof
    assume "s @ ''.yml'' = ''..''"
    then have "length (s @ ''.yml'') = length ''..''" by (rule arg_cong)
    then show False by simp
  qed
  show "CHR ''/'' \<notin> set (s @ ''.yml'')" using assms by simp
  show "is_yml (s @ ''.yml'')" by (simp add: is_yml_def)
qed

lemma path_parts_name:
  assumes "CHR ''/'' \<notin> set s"
  shows "path_parts (s @ ''.yml'') = [s @ ''.yml'']"
  using yml_name[OF assms] by (simp add: path_parts_def py_split_no_sep)

lemma path_root_name:
  assumes "CHR ''/'' \<notin> set s"
  shows "path_root (s @ ''.yml'') = []"
  using assms by (cases s) (auto simp add: path_root_def)

lemma joinpath_name:
  assumes "CHR ''/'' \<notin> set s"
  shows "joinpath CONFIG_DIR (s @ ''.yml'') = ''/opt/brewnix/config/sites/'' @ s @ ''.yml''"
  by (simp add: joinpath_def path_root_name[OF assms] path_parts_name[OF assms] CONFIG_DIR_def)

lemma path_parts_config_file:
  assumes "CHR ''/'' \<notin> set s"
  shows "path_parts (''/opt/brewnix/config/sites/'' @ s @ ''.yml'') =
           [''opt'', ''brewnix'', ''config'', ''sites'', s @ ''.yml'']"
proof -
  have "''/opt/brewnix/config/sites/'' @ s @ ''.yml'' =
          ''/opt/brewnix/config/sites'' @ CHR ''/'' # (s @ ''.yml'')"
    by simp
  then have "py_split CHR ''/'' (''/opt/brewnix/config/sites/'' @ s @ ''.yml'') =
          py_split CHR ''/'' ''/opt/brewnix/config/sites'' @ py_split CHR ''/'' (s @ ''.yml'')"
    by (simp only: py_split_append)
  also have "\<dots> = [[], ''opt'', ''brewnix'', ''config'', ''sites'', s @ ''.yml'']"
    using yml_name(4)[OF assms] by (simp add: py_split_no_sep)
  finally show ?thesis
    using yml_name[OF assms] by (simp add: path_parts_def)
qed




lemma resolve_config_file_ok:
  assumes "CHR ''/'' \<notin> set s"
      and "map_of ns ''/opt'' = Some Dir"
      and "map_of ns ''/opt/brewnix'' = Some Dir"
      and "map_of ns ''/opt/brewnix/config'' = Some Dir"
      and "map_of ns ''/opt/brewnix/config/sites'' = Some Dir"
  shows "resolve ns (''/opt/brewnix/config/sites/'' @ s @ ''.yml'') =
           Inr (''/opt/brewnix/config/sites/'' @ s @ ''.yml'')"
proof -
  have "walk ns [] [''opt'', ''brewnix'', ''config'', ''sites'', s @ ''.yml''] =
          Inr (''/opt/brewnix/config/sites/'' @ s @ ''.yml'')"
    using assms(2-5) yml_name(3)[OF assms(1)] by simp
  then show ?thesis
    unfolding resolve_def path_parts_config_file[OF assms(1)] .
qed



lemma new_site_Ok:
  assumes "request_method req = POST" and "new_site e req w = (Ok r, w')"
  shows "\<exists>s vt v i rl h u a w1 t w2.
           form_item (form req) ''site_name'' = Ok s
         \<and> form_item (form req) ''vlan_id'' = Ok vt
         \<and> py_int (int_max_str_digits e) vt = Ok v
         \<and> form_item (form req) ''ip_range'' = Ok i
         \<and> form_item (form req) ''raid_level'' = Ok rl
         \<and> form_item (form req) ''api_host'' = Ok h
         \<and> form_item (form req) ''api_user'' = Ok u
         \<and> mkdir_parents e CONFIG_DIR w = (Ok a, w1)
         \<and> open_w e (joinpath CONFIG_DIR (s @ ''.yml'')) w1 = (Ok t, w2)
         \<and> r = Redirect ''sites''
         \<and> w' = (perform (WriteAll t (yaml_dump e (site_config s v i (form req ''system_disks'')
                          (form req ''data_disks'') rl h u))) w2)
                  \<lparr>flashes := flashes w2 @ [(''message'', ''Site configuration created successfully!'')]\<rparr>"
proof -
  from new_site_fields[OF assms] obtain s vt v i rl h u where f:
    "form_item (form req) ''site_name'' = Ok s"
    "form_item (form req) ''vlan_id'' = Ok vt"
    "py_int (int_max_str_digits e) vt = Ok v"
    "form_item (form req) ''ip_range'' = Ok i"
    "form_item (form req) ''raid_level'' = Ok rl"
    "form_item (form req) ''api_host'' = Ok h"
    "form_item (form req) ''api_user'' = Ok u"
    by blast
  note run = new_site_run[OF assms(1) f, of w]
  obtain r1 w1 where m: "mkdir_parents e CONFIG_DIR w = (r1, w1)"
    by (cases "mkdir_parents e CONFIG_DIR w")
  obtain r2 w2 where ow: "open_w e (joinpath CONFIG_DIR (s @ ''.yml'')) w1 = (r2, w2)"
    by (cases "open_w e (joinpath CONFIG_DIR (s @ ''.yml'')) w1")
  from run assms(2) m obtain a where r1: "r1 = Ok a"
    by (cases r1) auto
  from run assms(2) m ow r1 obtain t where r2: "r2 = Ok t"
    by (cases r2) auto
  from run assms(2) m ow r1 r2
  have "r = Redirect ''sites'' \<and> w' = (perform (WriteAll t (yaml_dump e (site_config s v i (form req ''system_disks'')
                          (form req ''data_disks'') rl h u))) w2)
                  \<lparr>flashes := flashes w2 @ [(''message'', ''Site configuration created successfully!'')]\<rparr>"
    by auto
  with f m ow r1 r2 show ?thesis by blast
qed

lemma load_each_well_formed:
  "list_all (well_formed e) xs \<Longrightarrow> load_each e xs = Ok (map (listed e) xs)"
proof (induction xs)
  case Nil
  then show ?case by simp
next
  case (Cons x xs)
  obtain p n where x: "x = (p, n)" by (cases x)
  from Cons.prems have wf: "well_formed e (p, n)" and rest: "list_all (well_formed e) xs"
    by (simp_all add: x)
  from wf obtain body d where n: "n = File body" and r: "\<not> refuses_read e p"
      and y: "yaml_safe_load e body = Inr (PDict d)"
    by (auto simp add: well_formed_def split: node.splits sum.splits pyval.splits)
  show ?case
    using Cons.IH[OF rest] by (simp add: x n r y listed_def load_file_def)
qed

lemma load_each_malformed:
  "\<not> list_all (well_formed e) xs \<Longrightarrow> \<exists>x. load_each e xs = Exc x"
proof (induction xs)
  case Nil
  then show ?case by simp
next
  case (Cons x xs)
  obtain p n where x: "x = (p, n)" by (cases x)
  show ?case
  proof (cases "well_formed e (p, n)")
    case False
    then show ?thesis
      by (cases n) (auto simp add: x well_formed_def load_file_def split: sum.splits pyval.splits)
  next
    case True
    then obtain body d where n: "n = File body" and r: "\<not> refuses_read e p"
      and y: "yaml_safe_load e body = Inr (PDict d)"
      by (auto simp add: well_formed_def split: node.splits sum.splits pyval.splits)
    from True Cons.prems have "\<not> list_all (well_formed e) xs" by (simp add: x)
    then obtain z where "load_each e xs = Exc z" using Cons.IH by blast
    then show ?thesis by (simp add: x n r y load_file_def)
  qed
qed


lemmas example_defs = stub_env_def all_succeed_def lab_form_def lab_config_def lab_yaml_def
  stub_yaml_dump_def stub_yaml_safe_load_def empty_world_def lab_store_def post_def
  half_written_store_def store_with_bad_file_def

lemmas store_defs = new_site_def sites_def bind_io_def lift_def ret_def flash_def write_file_def
  getlist_def form_item_def py_int_def int_isspace_def digits_value_def digit_val_def is_digit_def
  mkdir_parents_def open_w_def resolve_def joinpath_def path_parts_def path_root_def
  parent_dir_def CONFIG_DIR_def site_config_def dict_of_def glob_yml_def yml_entry_def
  entry_name_def is_yml_def load_file_def perform_def Let_def



lemma new_site_accepts:
  assumes post: "request_method req = POST"
      and f: "form_item (form req) ''site_name'' = Ok s"
             "form_item (form req) ''vlan_id'' = Ok vt"
             "py_int (int_max_str_digits e) vt = Ok v"
             "form_item (form req) ''ip_range'' = Ok i"
             "form_item (form req) ''raid_level'' = Ok rl"
             "form_item (form req) ''api_host'' = Ok h"
             "form_item (form req) ''api_user'' = Ok u"
      and plain: "CHR ''/'' \<notin> set s" and nonul: "CHR 0x00 \<notin> set s"
      and dirs: "\<forall>d \<in> {''/opt'', ''/opt/brewnix'', ''/opt/brewnix/config'', ''/opt/brewnix/config/sites''}.
                   (\<forall>b. map_of (nodes w) d \<noteq> Some (File b)) \<and> \<not> refuses_write e d"
      and target: "map_of (nodes w) (''/opt/brewnix/config/sites/'' @ s @ ''.yml'') \<noteq> Some Dir"
                  "\<not> refuses_write e (''/opt/brewnix/config/sites/'' @ s @ ''.yml'')"
  shows "\<exists>w'. new_site e req w = (Ok (Redirect ''sites''), w')
           \<and> map_of (nodes w') (''/opt/brewnix/config/sites/'' @ s @ ''.yml'') =
               Some (File (yaml_dump e
                 (site_config s v i (form req ''system_disks'') (form req ''data_disks'') rl h u)))
           \<and> (\<forall>p. p \<noteq> ''/opt/brewnix/config/sites/'' @ s @ ''.yml''
                  \<and> p \<notin> {''/opt'', ''/opt/brewnix'', ''/opt/brewnix/config'', ''/opt/brewnix/config/sites''}
                  \<longrightarrow> map_of (nodes w') p = map_of (nodes w) p)"
proof -
  let ?P = "''/opt/brewnix/config/sites/'' @ s @ ''.yml''"
  let ?A = "{''/opt'', ''/opt/brewnix'', ''/opt/brewnix/config'', ''/opt/brewnix/config/sites''}"
  let ?new = "File (yaml_dump e
                 (site_config s v i (form req ''system_disks'') (form req ''data_disks'') rl h u))"
  from mkdir_parents_succeeds[OF dirs] obtain w1 where mk: "mkdir_parents e CONFIG_DIR w = (Ok (), w1)"
    by blast
  from mkdir_parents_nodes[OF mk] obtain ks where
      n1: "nodes w1 = nodes w @ map (\<lambda>d. (d, Dir)) ks" and ks: "set ks \<subseteq> ?A"
      and f1: "flashes w1 = flashes w"
    by blast
  have notA: "?P \<notin> ?A"
  proof
    assume "?P \<in> ?A"
    then have "length ?P \<in> length ` ?A" by (rule imageI)
    then show False by simp
  qed
  then have Pks: "?P \<notin> set ks" using ks by blast
  have res: "resolve (nodes w1) ?P = Inr ?P"
    using plain mkdir_parents_result[OF mk] by (rule resolve_config_file_ok)
  have nul: "CHR 0x00 \<notin> set ?P" using nonul by simp
  have "map_of (nodes w1) ?P = map_of (nodes w) ?P"
    by (simp only: n1 map_of_append_dirs[OF Pks])
  with target(1) have notdir: "map_of (nodes w1) ?P \<noteq> Some Dir"
    by simp
  have op: "open_w e (joinpath CONFIG_DIR (s @ ''.yml'')) w1 = (Ok ?P, perform (OpenTrunc ?P) w1)"
    unfolding joinpath_name[OF plain] open_w_def
    using nul res notdir target(2) by simp
  let ?w' = "(perform (WriteAll ?P (yaml_dump e
                 (site_config s v i (form req ''system_disks'') (form req ''data_disks'') rl h u)))
               (perform (OpenTrunc ?P) w1))
             \<lparr>flashes := flashes (perform (OpenTrunc ?P) w1)
                 @ [(''message'', ''Site configuration created successfully!'')]\<rparr>"
  have run: "new_site e req w = (Ok (Redirect ''sites''), ?w')"
    using new_site_run[OF post f, of w] mk op by simp
  have n': "nodes ?w' = AList.update ?P ?new (nodes w1)"
    by (simp add: perform_simps)
  have stored: "map_of (nodes ?w') ?P = Some ?new"
    by (simp only: n' update_conv') simp
  have rest: "map_of (nodes ?w') p = map_of (nodes w) p" if "p \<noteq> ?P" and "p \<notin> ?A" for p
  proof -
    from that(2) ks have pk: "p \<notin> set ks" by blast
    have "map_of (nodes w1) p = map_of (nodes w) p"
      by (simp only: n1 map_of_append_dirs[OF pk])
    with that(1) show ?thesis
      by (simp only: n' update_conv') simp
  qed
  from run stored rest show ?thesis by blast
qed

subsection \<open>Listing\<close>

text \<open>
  C8, as amended. The listing is all or nothing. When every entry of the directory whose
  name ends in \<^verbatim>\<open>.yml\<close> is well formed, \<^verbatim>\<open>sites\<close> shows all of them, in the order of
  enumeration, each with its file name. When one of them is not (a text that does not
  parse, a document that is not a mapping, a file that cannot be read, a directory),
  its exception ends the request: no record is returned, the well-formed ones included,
  and nothing is skipped or reported apart.
\<close>

theorem listing_all_or_nothing:
  "(list_all (well_formed e) (glob_yml e (nodes w)) \<longrightarrow>
      sites e w = (Ok (Render ''sites.html''
                         [(''sites'', PList (map (listed e) (glob_yml e (nodes w))))]), w))
   \<and> (\<not> list_all (well_formed e) (glob_yml e (nodes w)) \<longrightarrow> (\<exists>x. sites e w = (Exc x, w)))"
proof (intro conjI impI)
  assume "list_all (well_formed e) (glob_yml e (nodes w))"
  then have "load_each e (glob_yml e (nodes w)) = Ok (map (listed e) (glob_yml e (nodes w)))"
    by (rule load_each_well_formed)
  then show "sites e w = (Ok (Render ''sites.html''
                         [(''sites'', PList (map (listed e) (glob_yml e (nodes w))))]), w)"
    by (auto simp add: sites_def glob_yml_def)
next
  assume a: "\<not> list_all (well_formed e) (glob_yml e (nodes w))"
  then obtain x where x: "load_each e (glob_yml e (nodes w)) = Exc x"
    using load_each_malformed by blast
  from a have "map_of (nodes w) CONFIG_DIR \<noteq> None"
    by (auto simp add: glob_yml_def split: if_splits)
  with x show "\<exists>x. sites e w = (Exc x, w)"
    by (simp add: sites_def)
qed

theorem listing_all_or_nothing_witness:
  "sites (stub_env all_succeed) lab_store =
     (Ok (Render ''sites.html''
        [(''sites'', PList [PDict (fmupd ''filename'' (PStr ''lab1.yml'') (dict_of (lab_config ''lab1'' 50)))])]),
      lab_store)
   \<and> (\<exists>x. sites (stub_env all_succeed) store_with_bad_file = (Exc x, store_with_bad_file))"
  using listing_all_or_nothing[of "stub_env all_succeed" lab_store]
     listing_all_or_nothing[of "stub_env all_succeed" store_with_bad_file]
  by (simp add: glob_yml_def store_with_bad_file_def lab_store_def CONFIG_DIR_def yml_entry_def entry_name_def is_yml_def
      well_formed_def listed_def stub_env_def stub_yaml_safe_load_def lab_yaml_def lab_config_def site_config_def dict_of_def)

text \<open>
  A store with the well-formed record of \<^verbatim>\<open>lab1\<close> and a file holding an unclosed
  brace: the listing raises the parser's error.
\<close>

theorem malformed_file_fails_listing:
  "well_formed (stub_env all_succeed)
     (''/opt/brewnix/config/sites/lab1.yml'', File (lab_yaml ''lab1'' ''50''))
   \<and> sites (stub_env all_succeed) store_with_bad_file =
       (Exc (YAMLError ''while parsing a flow node''), store_with_bad_file)"
  by (simp add: sites_def glob_yml_def store_with_bad_file_def lab_store_def CONFIG_DIR_def yml_entry_def entry_name_def is_yml_def
      well_formed_def stub_env_def stub_yaml_safe_load_def lab_yaml_def lab_config_def site_config_def load_file_def)

subsection \<open>Creating a site\<close>

text \<open>
  C9, as amended. \<^verbatim>\<open>new_site\<close> checks that the six single-valued fields are present
  and that the VLAN id is an integer literal, and nothing else. First, a submission that
  lacks a field, or whose VLAN id is not an integer literal, raises before anything is
  written: the state is unchanged. Second, every other submission is accepted as far as
  the form goes: whatever the site name without a slash or a NUL is, the empty one
  included, and whatever integer the VLAN id is, zero and the negative ones included,
  the request succeeds wherever the file system lets the directory be made and the file
  be written; the record is then stored under the one key made of the site name, in
  place of whatever was there, and every other record is as before. Third, a request
  that succeeded had all six fields and an integer VLAN id, and stored the record built
  from them, in which the two disk lists are lists; a table with one node for each path
  stays so.
\<close>

theorem new_site_checks_presence_only:
  assumes "request_method req = POST"
  shows "((\<exists>k \<in> {''site_name'', ''vlan_id'', ''ip_range'', ''raid_level'', ''api_host'', ''api_user''}.
             form req k = [])
          \<or> (\<exists>vt rest x. form req ''vlan_id'' = vt # rest
                \<and> py_int (int_max_str_digits e) vt = Exc x)
         \<longrightarrow> (\<exists>x. new_site e req w = (Exc x, w)))
       \<and> (form_item (form req) ''site_name'' = Ok s
          \<and> form_item (form req) ''vlan_id'' = Ok vt
          \<and> py_int (int_max_str_digits e) vt = Ok v
          \<and> form_item (form req) ''ip_range'' = Ok i
          \<and> form_item (form req) ''raid_level'' = Ok rl
          \<and> form_item (form req) ''api_host'' = Ok h
          \<and> form_item (form req) ''api_user'' = Ok u
          \<and> CHR ''/'' \<notin> set s \<and> CHR 0x00 \<notin> set s
          \<and> (\<forall>d \<in> {''/opt'', ''/opt/brewnix'', ''/opt/brewnix/config'', ''/opt/brewnix/config/sites''}.
                (\<forall>b. map_of (nodes w) d \<noteq> Some (File b)) \<and> \<not> refuses_write e d)
          \<and> map_of (nodes w) (''/opt/brewnix/config/sites/'' @ s @ ''.yml'') \<noteq> Some Dir
          \<and> \<not> refuses_write e (''/opt/brewnix/config/sites/'' @ s @ ''.yml'')
         \<longrightarrow> (\<exists>w1. new_site e req w = (Ok (Redirect ''sites''), w1)
               \<and> map_of (nodes w1) (''/opt/brewnix/config/sites/'' @ s @ ''.yml'') =
                   Some (File (yaml_dump e
                     (site_config s v i (form req ''system_disks'') (form req ''data_disks'') rl h u)))
               \<and> (\<forall>p. p \<noteq> ''/opt/brewnix/config/sites/'' @ s @ ''.yml''
                      \<and> p \<notin> {''/opt'', ''/opt/brewnix'', ''/opt/brewnix/config'',
                               ''/opt/brewnix/config/sites''}
                      \<longrightarrow> map_of (nodes w1) p = map_of (nodes w) p)))
       \<and> (new_site e req w = (Ok r, w') \<longrightarrow>
            (\<exists>s vt v i rl h u t.
                form_item (form req) ''site_name'' = Ok s
              \<and> form_item (form req) ''vlan_id'' = Ok vt
              \<and> py_int (int_max_str_digits e) vt = Ok v
              \<and> form_item (form req) ''ip_range'' = Ok i
              \<and> form_item (form req) ''raid_level'' = Ok rl
              \<and> form_item (form req) ''api_host'' = Ok h
              \<and> form_item (form req) ''api_user'' = Ok u
              \<and> map_of (nodes w') t =
                  Some (File (yaml_dump e
                    (site_config s v i (form req ''system_disks'') (form req ''data_disks'') rl h u)))
              \<and> (distinct (map fst (nodes w)) \<longrightarrow> distinct (map fst (nodes w')))))"
proof (intro conjI impI)
  assume "(\<exists>k \<in> {''site_name'', ''vlan_id'', ''ip_range'', ''raid_level'', ''api_host'', ''api_user''}.
             form req k = [])
          \<or> (\<exists>vt rest x. form req ''vlan_id'' = vt # rest
                \<and> py_int (int_max_str_digits e) vt = Exc x)"
  with assms show "\<exists>x. new_site e req w = (Exc x, w)"
    by (rule new_site_rejects)
next
  assume a: "form_item (form req) ''site_name'' = Ok s
          \<and> form_item (form req) ''vlan_id'' = Ok vt
          \<and> py_int (int_max_str_digits e) vt = Ok v
          \<and> form_item (form req) ''ip_range'' = Ok i
          \<and> form_item (form req) ''raid_level'' = Ok rl
          \<and> form_item (form req) ''api_host'' = Ok h
          \<and> form_item (form req) ''api_user'' = Ok u
          \<and> CHR ''/'' \<notin> set s \<and> CHR 0x00 \<notin> set s
          \<and> (\<forall>d \<in> {''/opt'', ''/opt/brewnix'', ''/opt/brewnix/config'', ''/opt/brewnix/config/sites''}.
                (\<forall>b. map_of (nodes w) d \<noteq> Some (File b)) \<and> \<not> refuses_write e d)
          \<and> map_of (nodes w) (''/opt/brewnix/config/sites/'' @ s @ ''.yml'') \<noteq> Some Dir
          \<and> \<not> refuses_write e (''/opt/brewnix/config/sites/'' @ s @ ''.yml'')"
  show "\<exists>w1. new_site e req w = (Ok (Redirect ''sites''), w1)
               \<and> map_of (nodes w1) (''/opt/brewnix/config/sites/'' @ s @ ''.yml'') =
                   Some (File (yaml_dump e
                     (site_config s v i (form req ''system_disks'') (form req ''data_disks'') rl h u)))
               \<and> (\<forall>p. p \<noteq> ''/opt/brewnix/config/sites/'' @ s @ ''.yml''
                      \<and> p \<notin> {''/opt'', ''/opt/brewnix'', ''/opt/brewnix/config'',
                               ''/opt/brewnix/config/sites''}
                      \<longrightarrow> map_of (nodes w1) p = map_of (nodes w) p)"
  proof (rule new_site_accepts[OF assms])
    show "form_item (form req) ''site_name'' = Ok s" using a by (elim conjE)
    show "form_item (form req) ''vlan_id'' = Ok vt" using a by (elim conjE)
    show "py_int (int_max_str_digits e) vt = Ok v" using a by (elim conjE)
    show "form_item (form req) ''ip_range'' = Ok i" using a by (elim conjE)
    show "form_item (form req) ''raid_level'' = Ok rl" using a by (elim conjE)
    show "form_item (form req) ''api_host'' = Ok h" using a by (elim conjE)
    show "form_item (form req) ''api_user'' = Ok u" using a by (elim conjE)
    show "CHR ''/'' \<notin> set s" using a by (elim conjE)
    show "CHR 0x00 \<notin> set s" using a by (elim conjE)
    show "\<forall>d \<in> {''/opt'', ''/opt/brewnix'', ''/opt/brewnix/config'', ''/opt/brewnix/config/sites''}.
                (\<forall>b. map_of (nodes w) d \<noteq> Some (File b)) \<and> \<not> refuses_write e d"
      using a by (elim conjE)
    show "map_of (nodes w) (''/opt/brewnix/config/sites/'' @ s @ ''.yml'') \<noteq> Some Dir"
      using a by (elim conjE)
    show "\<not> refuses_write e (''/opt/brewnix/config/sites/'' @ s @ ''.yml'')"
      using a by (elim conjE)
  qed
next
  assume ok: "new_site e req w = (Ok r, w')"
  from new_site_Ok[OF assms ok] obtain s vt v i rl h u a w1 t w2 where
      f: "form_item (form req) ''site_name'' = Ok s"
         "form_item (form req) ''vlan_id'' = Ok vt"
         "py_int (int_max_str_digits e) vt = Ok v"
         "form_item (form req) ''ip_range'' = Ok i"
         "form_item (form req) ''raid_level'' = Ok rl"
         "form_item (form req) ''api_host'' = Ok h"
         "form_item (form req) ''api_user'' = Ok u"
    and mk: "mkdir_parents e CONFIG_DIR w = (Ok a, w1)"
    and op: "open_w e (joinpath CONFIG_DIR (s @ ''.yml'')) w1 = (Ok t, w2)"
    and w': "w' = (perform (WriteAll t (yaml_dump e (site_config s v i (form req ''system_disks'')
                          (form req ''data_disks'') rl h u))) w2)
                  \<lparr>flashes := flashes w2 @ [(''message'', ''Site configuration created successfully!'')]\<rparr>"
    by blast
  have stored: "map_of (nodes w') t =
                  Some (File (yaml_dump e
                    (site_config s v i (form req ''system_disks'') (form req ''data_disks'') rl h u)))"
    by (simp add: w' perform_simps update_conv')
  have keys: "distinct (map fst (nodes w)) \<longrightarrow> distinct (map fst (nodes w'))"
  proof
    assume "distinct (map fst (nodes w))"
    with mk have "distinct (map fst (nodes w1))"
      unfolding mkdir_parents_def by (rule mkdir_chain_distinct)
    then show "distinct (map fst (nodes w'))"
      by (simp add: w' open_w_Ok(1)[OF op] perform_simps distinct_update)
  qed
  have "form_item (form req) ''site_name'' = Ok s
              \<and> form_item (form req) ''vlan_id'' = Ok vt
              \<and> py_int (int_max_str_digits e) vt = Ok v
              \<and> form_item (form req) ''ip_range'' = Ok i
              \<and> form_item (form req) ''raid_level'' = Ok rl
              \<and> form_item (form req) ''api_host'' = Ok h
              \<and> form_item (form req) ''api_user'' = Ok u
              \<and> map_of (nodes w') t =
                  Some (File (yaml_dump e
                    (site_config s v i (form req ''system_disks'') (form req ''data_disks'') rl h u)))
              \<and> (distinct (map fst (nodes w)) \<longrightarrow> distinct (map fst (nodes w')))"
    using f stored keys by simp
  then show "\<exists>s vt v i rl h u t.
                form_item (form req) ''site_name'' = Ok s
              \<and> form_item (form req) ''vlan_id'' = Ok vt
              \<and> py_int (int_max_str_digits e) vt = Ok v
              \<and> form_item (form req) ''ip_range'' = Ok i
              \<and> form_item (form req) ''raid_level'' = Ok rl
              \<and> form_item (form req) ''api_host'' = Ok h
              \<and> form_item (form req) ''api_user'' = Ok u
              \<and> map_of (nodes w') t =
                  Some (File (yaml_dump e
                    (site_config s v i (form req ''system_disks'') (form req ''data_disks'') rl h u)))
              \<and> (distinct (map fst (nodes w)) \<longrightarrow> distinct (map fst (nodes w')))"
    by (intro exI)
qed

theorem new_site_checks_presence_only_witness:
  "(\<exists>x. new_site (stub_env all_succeed) (post (lab_form ''lab1'' ''fifty'')) lab_store =
          (Exc x, lab_store))
   \<and> (\<exists>w1. new_site (stub_env all_succeed) (post (lab_form [] ''-1'')) lab_store =
               (Ok (Redirect ''sites''), w1)
          \<and> map_of (nodes w1) ''/opt/brewnix/config/sites/.yml'' =
              Some (File (lab_yaml [CHR 0x27, CHR 0x27] ''-1''))
          \<and> map_of (nodes w1) ''/opt/brewnix/config/sites/lab1.yml'' =
              Some (File (lab_yaml ''lab1'' ''50'')))"
proof -
  let ?e = "stub_env all_succeed"
  let ?bad = "post (lab_form ''lab1'' ''fifty'')"
  let ?req = "post (lab_form [] ''-1'')"
  have p: "request_method ?bad = POST" "request_method ?req = POST"
    by (simp_all add: post_def)
  have bad: "(\<exists>k \<in> {''site_name'', ''vlan_id'', ''ip_range'', ''raid_level'', ''api_host'', ''api_user''}.
             form ?bad k = [])
          \<or> (\<exists>vt rest x. form ?bad ''vlan_id'' = vt # rest
                \<and> py_int (int_max_str_digits ?e) vt = Exc x)"
    by (rule disjI2)
       (simp add: post_def lab_form_def stub_env_def py_int_def int_isspace_def is_digit_def Let_def)
  note A = new_site_checks_presence_only[OF p(1), of ?e lab_store, THEN conjunct1]
  have 1: "\<exists>x. new_site ?e ?bad lab_store = (Exc x, lab_store)"
    by (rule mp[OF A bad])
  have hyp: "form_item (form ?req) ''site_name'' = Ok []
          \<and> form_item (form ?req) ''vlan_id'' = Ok ''-1''
          \<and> py_int (int_max_str_digits ?e) ''-1'' = Ok (- 1)
          \<and> form_item (form ?req) ''ip_range'' = Ok ''10.0.50.0/24''
          \<and> form_item (form ?req) ''raid_level'' = Ok ''raidz1''
          \<and> form_item (form ?req) ''api_host'' = Ok ''pve.lab''
          \<and> form_item (form ?req) ''api_user'' = Ok ''root''
          \<and> CHR ''/'' \<notin> set [] \<and> CHR 0x00 \<notin> set []
          \<and> (\<forall>d \<in> {''/opt'', ''/opt/brewnix'', ''/opt/brewnix/config'', ''/opt/brewnix/config/sites''}.
                (\<forall>b. map_of (nodes lab_store) d \<noteq> Some (File b))
                \<and> \<not> refuses_write ?e d)
          \<and> map_of (nodes lab_store) (''/opt/brewnix/config/sites/'' @ [] @ ''.yml'') \<noteq> Some Dir
          \<and> \<not> refuses_write ?e (''/opt/brewnix/config/sites/'' @ [] @ ''.yml'')"
    by (simp add: post_def lab_form_def form_item_def stub_env_def lab_store_def
        py_int_def int_isspace_def is_digit_def digits_value_def digit_val_def Let_def)
  note B = new_site_checks_presence_only[OF p(2), of ?e lab_store
      "[]" "''-1''" "- 1" "''10.0.50.0/24''" "''raidz1''" "''pve.lab''" "''root''",
      THEN conjunct2, THEN conjunct1]
  from mp[OF B hyp] obtain w1 where abc:
    "new_site ?e ?req lab_store = (Ok (Redirect ''sites''), w1)
     \<and> map_of (nodes w1) (''/opt/brewnix/config/sites/'' @ [] @ ''.yml'') =
              Some (File (yaml_dump ?e
                (site_config [] (- 1) ''10.0.50.0/24''
                   (form ?req ''system_disks'') (form ?req ''data_disks'') ''raidz1''
                   ''pve.lab'' ''root'')))
     \<and> (\<forall>p. p \<noteq> ''/opt/brewnix/config/sites/'' @ [] @ ''.yml''
                      \<and> p \<notin> {''/opt'', ''/opt/brewnix'', ''/opt/brewnix/config'',
                               ''/opt/brewnix/config/sites''}
                      \<longrightarrow> map_of (nodes w1) p = map_of (nodes lab_store) p)"
    by (rule exE)
  note a = abc[THEN conjunct1]
  note b = abc[THEN conjunct2, THEN conjunct1]
  note c = abc[THEN conjunct2, THEN conjunct2]
  have d: "''/opt/brewnix/config/sites/lab1.yml'' \<noteq> ''/opt/brewnix/config/sites/'' @ [] @ ''.yml''
        \<and> ''/opt/brewnix/config/sites/lab1.yml'' \<notin> {''/opt'', ''/opt/brewnix'', ''/opt/brewnix/config'',
                               ''/opt/brewnix/config/sites''}"
    by simp
  have "map_of (nodes w1) ''/opt/brewnix/config/sites/lab1.yml'' =
                 map_of (nodes lab_store) ''/opt/brewnix/config/sites/lab1.yml''"
    by (rule mp[OF spec[OF c] d])
  then have c': "map_of (nodes w1) ''/opt/brewnix/config/sites/lab1.yml'' =
              Some (File (lab_yaml ''lab1'' ''50''))"
    by (simp add: lab_store_def)
  from b have b': "map_of (nodes w1) ''/opt/brewnix/config/sites/.yml'' =
              Some (File (lab_yaml [CHR 0x27, CHR 0x27] ''-1''))"
    by (simp add: post_def lab_form_def stub_env_def stub_yaml_dump_def site_config_def dict_of_def)
  from a b' c' have "new_site ?e ?req lab_store = (Ok (Redirect ''sites''), w1)
          \<and> map_of (nodes w1) ''/opt/brewnix/config/sites/.yml'' =
              Some (File (lab_yaml [CHR 0x27, CHR 0x27] ''-1''))
          \<and> map_of (nodes w1) ''/opt/brewnix/config/sites/lab1.yml'' =
              Some (File (lab_yaml ''lab1'' ''50''))"
    by (intro conjI)
  then have 2: "\<exists>w1. new_site ?e ?req lab_store = (Ok (Redirect ''sites''), w1)
          \<and> map_of (nodes w1) ''/opt/brewnix/config/sites/.yml'' =
              Some (File (lab_yaml [CHR 0x27, CHR 0x27] ''-1''))
          \<and> map_of (nodes w1) ''/opt/brewnix/config/sites/lab1.yml'' =
              Some (File (lab_yaml ''lab1'' ''50''))"
    by (rule exI[of _ w1])
  from 1 2 show ?thesis by (rule conjI)
qed

text \<open>
  A submission with an empty site name and the VLAN id -1 is accepted and stored, as
  the file \<^verbatim>\<open>.yml\<close>.
\<close>

theorem empty_name_and_negative_vlan_are_stored:
  "new_site (stub_env all_succeed) (post (lab_form [] ''-1'')) empty_world =
     (Ok (Redirect ''sites''),
      \<lparr>nodes = [(''/opt'', Dir), (''/opt/brewnix'', Dir), (''/opt/brewnix/config'', Dir),
               (''/opt/brewnix/config/sites'', Dir),
               (''/opt/brewnix/config/sites/.yml'', File (lab_yaml [CHR 0x27, CHR 0x27] ''-1''))],
       calls = [],
       flashes = [(''message'', ''Site configuration created successfully!'')],
       syscalls = [MkDir ''/opt'', MkDir ''/opt/brewnix'', MkDir ''/opt/brewnix/config'',
                   MkDir ''/opt/brewnix/config/sites'',
                   OpenTrunc ''/opt/brewnix/config/sites/.yml'',
                   WriteAll ''/opt/brewnix/config/sites/.yml''
                     (lab_yaml [CHR 0x27, CHR 0x27] ''-1'')]\<rparr>)
   \<and> yaml_safe_load (stub_env all_succeed) (lab_yaml [CHR 0x27, CHR 0x27] ''-1'') =
       Inr (site_config [] (- 1) ''10.0.50.0/24'' [''/dev/sda''] [''/dev/sdb''] ''raidz1''
              ''pve.lab'' ''root'')"
  by (simp add: example_defs store_defs)

subsection \<open>Saving in place\<close>




subsection \<open>Saving and reading back\<close>



end
